theory Spec2Isabelle
  imports Complex_Main "HOL-Library.Sublist" "HOL-Library.AList"
begin

section \<open>Exceptions and tensors\<close>

text \<open>
  The Python exceptions that the layer code of \<^verbatim>\<open>paysage/layers.py\<close> can raise. Each
  carries the name or message given at the raise.
\<close>

datatype error =
    AttributeError string
  | TypeError string
  | KeyError string
  | ValueError string
  | NotImplementedError string
  | ZeroDivisionError string

text \<open>
  A tensor of the backend is a vector (shape \<^verbatim>\<open>(n,)\<close>) or a matrix given by its rows
  (shape \<^verbatim>\<open>(num_samples, n)\<close>). The elements are 32-bit floats in the program; the model
  idealises them as real numbers, so it has no rounding, no \<^verbatim>\<open>inf\<close> and no \<^verbatim>\<open>NaN\<close>.
\<close>

datatype tensor = Vec "real list" | Mat "real list list"

fun t_len :: "tensor \<Rightarrow> nat" where
  "t_len (Vec v) = length v"
| "t_len (Mat rows) = length rows"

fun t_map :: "(real \<Rightarrow> real) \<Rightarrow> tensor \<Rightarrow> tensor" where
  "t_map f (Vec v) = Vec (map f v)"
| "t_map f (Mat rows) = Mat (map (map f) rows)"

text \<open>
  Elementwise binary operations (\<^verbatim>\<open>+\<close>, \<^verbatim>\<open>-\<close>, \<^verbatim>\<open>*\<close>, \<^verbatim>\<open>/\<close> and their in-place forms) on
  tensors of the same shape; a vector against a matrix is applied to every row. On
  operands whose shapes disagree the program raises (spec, section 7 (c)); the equations
  below are meant for agreeing shapes only, and every theorem that reaches them states
  the shapes of its tensors.
\<close>

fun t_zip :: "(real \<Rightarrow> real \<Rightarrow> real) \<Rightarrow> tensor \<Rightarrow> tensor \<Rightarrow> tensor" where
  "t_zip f (Vec a) (Vec b) = Vec (map2 f a b)"
| "t_zip f (Mat a) (Mat b) = Mat (map2 (map2 f) a b)"
| "t_zip f (Mat a) (Vec b) = Mat (map (\<lambda>r. map2 f r b) a)"
| "t_zip f (Vec a) (Mat b) = Mat (map (\<lambda>r. map2 f a r) b)"

definition t_add :: "tensor \<Rightarrow> tensor \<Rightarrow> tensor" where
  "t_add = t_zip (+)"

definition t_sub :: "tensor \<Rightarrow> tensor \<Rightarrow> tensor" where
  "t_sub = t_zip (-)"

definition t_mul :: "tensor \<Rightarrow> tensor \<Rightarrow> tensor" where
  "t_mul = t_zip (*)"

definition t_neg :: "tensor \<Rightarrow> tensor" where
  "t_neg = t_map uminus"

definition t_scale :: "tensor \<Rightarrow> real \<Rightarrow> tensor" where
  "t_scale t c = t_map (\<lambda>v. v * c) t"

definition t_div_scalar :: "tensor \<Rightarrow> real \<Rightarrow> tensor" where
  "t_div_scalar t c = t_map (\<lambda>v. v / c) t"

definition t_pow2 :: "tensor \<Rightarrow> tensor" where
  "t_pow2 = t_map (\<lambda>v. v ^ 2)"

fun ncols :: "real list list \<Rightarrow> nat" where
  "ncols [] = 0"
| "ncols (r # rs) = length r"

section \<open>The tensor backend\<close>

text \<open>
  Modelled from the spec: the tensor backend contract of section 6 (elementwise
  transcendental functions, reductions, \<^verbatim>\<open>dot\<close>, \<^verbatim>\<open>batch_dot\<close>, broadcast-to-match).
  The layers reach the backend as \<^verbatim>\<open>be\<close>; the only backend file in the sources,
  \<^verbatim>\<open>pytorch_backend/matrix.py\<close>, declares these operations with their docstrings and
  bodies that raise \<^verbatim>\<open>NotImplementedError\<close>. An operation has equations for the
  tensor ranks at which the layers call it and is left unspecified at the others; the
  theorems state the shapes of their arguments.
\<close>

definition be_exp :: "tensor \<Rightarrow> tensor" where
  "be_exp = t_map exp"

definition be_log :: "tensor \<Rightarrow> tensor" where
  "be_log = t_map ln"

definition be_tanh :: "tensor \<Rightarrow> tensor" where
  "be_tanh = t_map tanh"

definition be_atanh :: "tensor \<Rightarrow> tensor" where
  "be_atanh = t_map artanh"

definition be_expit :: "tensor \<Rightarrow> tensor" where
  "be_expit = t_map (\<lambda>x. 1 / (1 + exp (- x)))"

definition be_logit :: "tensor \<Rightarrow> tensor" where
  "be_logit = t_map (\<lambda>p. ln (p / (1 - p)))"

definition be_square :: "tensor \<Rightarrow> tensor" where
  "be_square = t_map (\<lambda>v. v ^ 2)"

definition be_reciprocal :: "tensor \<Rightarrow> tensor" where
  "be_reciprocal = t_map (\<lambda>v. 1 / v)"

definition be_zeros :: "nat \<Rightarrow> tensor" where
  "be_zeros n = Vec (replicate n 0)"

fun be_ones_like :: "tensor \<Rightarrow> tensor" where
  "be_ones_like t = t_map (\<lambda>_. 1) t"

text \<open>
  Modelled from the spec: \<^verbatim>\<open>broadcast(vec, matrix)\<close>, the broadcast-to-match utility of
  section 6. A per-unit vector \<^verbatim>\<open>(n,)\<close> is repeated along the sample axis; a per-sample
  column \<^verbatim>\<open>(num_samples, 1)\<close> is repeated along the unit axis.
\<close>

fun be_broadcast :: "tensor \<Rightarrow> tensor \<Rightarrow> tensor" where
  "be_broadcast (Vec v) (Mat m) = Mat (map (\<lambda>_. v) m)"
| "be_broadcast (Mat c) (Mat m) = Mat (map2 (\<lambda>b r. map (\<lambda>_. hd b) r) c m)"
| "be_broadcast (Vec v) (Vec w) = Vec v"

text \<open>
  Modelled from the spec: the reduction \<^verbatim>\<open>mean(x, axis=0)\<close> of section 6, the mean of
  every column of a matrix over its rows.
\<close>

fun be_mean_axis0 :: "tensor \<Rightarrow> tensor" where
  "be_mean_axis0 (Mat rows) =
     Vec (map (\<lambda>i. (\<Sum>r\<leftarrow>rows. r ! i) / real (length rows)) [0..<ncols rows])"

text \<open>
  Modelled from the spec: \<^verbatim>\<open>dot\<close>, the matrix product of section 6: entry \<open>(k, j)\<close> of
  \<^verbatim>\<open>dot(a, b)\<close> is the sum over \<open>c\<close> of \<open>a[k][c] * b[c][j]\<close>.
\<close>

fun be_dot :: "tensor \<Rightarrow> tensor \<Rightarrow> tensor" where
  "be_dot (Mat a) (Mat b) =
     Mat (map (\<lambda>row. map (\<lambda>j. \<Sum>c\<leftarrow>[0..<length b]. row ! c * (b ! c) ! j) [0..<ncols b]) a)"

fun be_tsum_axis1 :: "tensor \<Rightarrow> tensor" where
  "be_tsum_axis1 (Mat rows) = Vec (map sum_list rows)"

text \<open>
  Modelled from the spec: \<^verbatim>\<open>batch_dot(v, W, h)\<close>, the batched bilinear contraction of
  sections 4.2 and 6, \<open>v\<^sub>k\<^sup>T W h\<^sub>k\<close> for every sample row \<open>k\<close>, computed on whole tensors
  (one matrix product, one elementwise product, one reduction along the unit axis)
  rather than sample by sample. The sources hold only its declaration.
\<close>

definition be_batch_dot :: "tensor \<Rightarrow> tensor \<Rightarrow> tensor \<Rightarrow> tensor" where
  "be_batch_dot vis W hid = be_tsum_axis1 (t_mul (be_dot vis W) hid)"

text \<open>
  Modelled from the spec: \<^verbatim>\<open>mix_inplace(w, x, y)\<close>; the spec does not describe it, the
  docstring of its declaration does: the weighted average \<open>w * x + (1 - w) * y\<close>, stored
  in \<open>x\<close>.
\<close>

definition be_mix_inplace :: "real \<Rightarrow> tensor \<Rightarrow> tensor \<Rightarrow> tensor" where
  "be_mix_inplace w x y = t_add (t_scale x w) (t_scale y (1 - w))"

text \<open>
  Modelled from the spec: \<^verbatim>\<open>subtract_dicts_inplace(a, b)\<close>, the helper behind
  \<^verbatim>\<open>parameter_step\<close> (section 4.1): for every entry of \<open>b\<close>, in order, subtract it from
  the entry of \<open>a\<close> with the same name in place; a name absent from \<open>a\<close> raises
  \<^verbatim>\<open>KeyError\<close>, after the earlier entries have been subtracted.
\<close>

fun be_subtract_dicts_inplace ::
  "(string \<rightharpoonup> tensor) \<Rightarrow> (string \<times> tensor) list \<Rightarrow> (string \<rightharpoonup> tensor) \<times> error option" where
  "be_subtract_dicts_inplace a [] = (a, None)"
| "be_subtract_dicts_inplace a ((key, d) # rest) =
     (case a key of
        None \<Rightarrow> (a, Some (KeyError key))
      | Some v \<Rightarrow> be_subtract_dicts_inplace (a(key \<mapsto> t_sub v d)) rest)"

section \<open>The layer base class\<close>

text \<open>
  A penalty object has a \<^verbatim>\<open>value\<close> and a \<^verbatim>\<open>grad\<close> method; a constraint is a callable that
  projects a tensor in place. Both come from modules outside the layer core.
\<close>

record penalty =
  pen_value :: "tensor \<Rightarrow> real"
  pen_grad :: "tensor \<Rightarrow> tensor"

type_synonym constraint = "tensor \<Rightarrow> tensor"

text \<open>
  The attributes that \<^verbatim>\<open>Layer.__init__\<close> creates. The dictionaries \<^verbatim>\<open>penalties\<close> and
  \<^verbatim>\<open>constraints\<close> are iterated, so they keep their insertion order.
\<close>

record Layer =
  int_params :: "string \<rightharpoonup> tensor"
  penalties :: "(string \<times> penalty) list"
  constraints :: "(string \<times> constraint) list"

text \<open>\<^verbatim>\<open>dict.update(other)\<close>: every entry of \<open>other\<close> is stored, a known key keeps its place.\<close>

definition dict_update :: "(string \<times> 'v) list \<Rightarrow> (string \<times> 'v) list \<Rightarrow> (string \<times> 'v) list" where
  "dict_update d other = fold (\<lambda>(k, v) acc. AList.update k v acc) other d"

text \<open>
  Attribute lookup for a dictionary of constraints: \<^verbatim>\<open>__init__\<close> binds exactly one such
  attribute, \<^verbatim>\<open>constraints\<close>; any other name raises \<^verbatim>\<open>AttributeError\<close>.
\<close>

definition getattr_constraint_dict ::
  "'a Layer_scheme \<Rightarrow> string \<Rightarrow> error + (string \<times> constraint) list" where
  "getattr_constraint_dict self name =
     (if name = ''constraints'' then Inr (constraints self) else Inl (AttributeError name))"

text \<open>\<^verbatim>\<open>add_constraint\<close>: the statement is \<^verbatim>\<open>self.constraint.update(constraint)\<close>.\<close>

definition Layer_add_constraint ::
  "'a Layer_scheme \<Rightarrow> (string \<times> constraint) list \<Rightarrow> 'a Layer_scheme \<times> error option" where
  "Layer_add_constraint self constraint =
     (case getattr_constraint_dict self ''constraint'' of
        Inl e \<Rightarrow> (self, Some e)
      | Inr d \<Rightarrow> (self\<lparr>constraints := dict_update d constraint\<rparr>, None))"

text \<open>
  \<^verbatim>\<open>enforce_constraints\<close>: for every name of \<^verbatim>\<open>self.constraints\<close>, the body evaluates
  \<^verbatim>\<open>self.constraint[param_name](self.int_params[param_name])\<close>.
\<close>

fun enforce_loop :: "'a Layer_scheme \<Rightarrow> string list \<Rightarrow> 'a Layer_scheme \<times> error option" where
  "enforce_loop self [] = (self, None)"
| "enforce_loop self (param_name # rest) =
     (case getattr_constraint_dict self ''constraint'' of
        Inl e \<Rightarrow> (self, Some e)
      | Inr d \<Rightarrow>
          (case map_of d param_name of
             None \<Rightarrow> (self, Some (KeyError param_name))
           | Some c \<Rightarrow>
               (case int_params self param_name of
                  None \<Rightarrow> (self, Some (KeyError param_name))
                | Some v \<Rightarrow>
                    enforce_loop (self\<lparr>int_params := (int_params self)(param_name \<mapsto> c v)\<rparr>) rest)))"

definition Layer_enforce_constraints :: "'a Layer_scheme \<Rightarrow> 'a Layer_scheme \<times> error option" where
  "Layer_enforce_constraints self = enforce_loop self (map fst (constraints self))"

definition Layer_add_penalty ::
  "'a Layer_scheme \<Rightarrow> (string \<times> penalty) list \<Rightarrow> 'a Layer_scheme" where
  "Layer_add_penalty self pen = self\<lparr>penalties := dict_update (penalties self) pen\<rparr>"

text \<open>
  \<^verbatim>\<open>parameter_step\<close>: \<^verbatim>\<open>be.subtract_dicts_inplace(self.int_params, deltas)\<close>, then
  \<^verbatim>\<open>self.enforce_constraints()\<close>. An exception leaves the subtractions already made.
\<close>

definition Layer_parameter_step ::
  "'a Layer_scheme \<Rightarrow> (string \<times> tensor) list \<Rightarrow> 'a Layer_scheme \<times> error option" where
  "Layer_parameter_step self deltas =
     (case be_subtract_dicts_inplace (int_params self) deltas of
        (a, Some e) \<Rightarrow> (self\<lparr>int_params := a\<rparr>, Some e)
      | (a, None) \<Rightarrow> Layer_enforce_constraints (self\<lparr>int_params := a\<rparr>))"

section \<open>The weight layer\<close>

text \<open>
  A \<^verbatim>\<open>Weights\<close> object adds the attribute \<^verbatim>\<open>shape\<close>; its only intrinsic parameter is
  \<^verbatim>\<open>int_params['matrix']\<close>.
\<close>

record Weights = Layer +
  shape :: "nat \<times> nat"

text \<open>\<^verbatim>\<open>Weights.energy\<close>: \<^verbatim>\<open>-be.batch_dot(vis, self.int_params['matrix'], hid)\<close>.\<close>

definition Weights_energy :: "Weights \<Rightarrow> tensor \<Rightarrow> tensor \<Rightarrow> tensor" where
  "Weights_energy self vis hid = t_neg (be_batch_dot vis (the (int_params self ''matrix'')) hid)"

text \<open>
  The explicit per-sample double loop of the spec (sections 4.2 and 8): for one sample,
  run over the visible units \<open>i\<close> and the hidden units \<open>j\<close>, accumulate
  \<open>W\<^sub>i\<^sub>j * vis\<^sub>i * hid\<^sub>j\<close>, and negate the total.
\<close>

definition energy_double_loop :: "real list list \<Rightarrow> real list \<Rightarrow> real list \<Rightarrow> real" where
  "energy_double_loop W v h =
     - fold (\<lambda>i acc. fold (\<lambda>j acc'. acc' + (W ! i) ! j * v ! i * h ! j) [0..<length h] acc)
         [0..<length v] 0"

section \<open>The unit layers\<close>

datatype layer_class = GaussianLayer | IsingLayer | BernoulliLayer | ExponentialLayer

text \<open>
  The four unit-layer classes create the same attributes on top of the base class:
  \<^verbatim>\<open>len\<close>, \<^verbatim>\<open>sample_size\<close> and \<^verbatim>\<open>ext_params\<close> (whose values are \<^verbatim>\<open>None\<close> until
  \<^verbatim>\<open>update\<close> runs); \<open>cls\<close> is the class of the object. The intrinsic parameters named by a
  class are installed by its constructor and no method removes a key, so the methods
  read them with \<open>the\<close>.
\<close>

record unit_layer = Layer +
  cls :: layer_class
  len :: nat
  sample_size :: nat
  ext_params :: "string \<rightharpoonup> tensor option"

definition GaussianLayer_init :: "nat \<Rightarrow> unit_layer" where
  "GaussianLayer_init num_units =
     \<lparr>int_params = [''loc'' \<mapsto> be_zeros num_units, ''log_var'' \<mapsto> be_zeros num_units],
      penalties = [], constraints = [],
      cls = GaussianLayer, len = num_units, sample_size = 0,
      ext_params = [''mean'' \<mapsto> None, ''variance'' \<mapsto> None]\<rparr>"

definition IsingLayer_init :: "nat \<Rightarrow> unit_layer" where
  "IsingLayer_init num_units =
     \<lparr>int_params = [''loc'' \<mapsto> be_zeros num_units],
      penalties = [], constraints = [],
      cls = IsingLayer, len = num_units, sample_size = 0,
      ext_params = [''field'' \<mapsto> None]\<rparr>"

definition BernoulliLayer_init :: "nat \<Rightarrow> unit_layer" where
  "BernoulliLayer_init num_units =
     \<lparr>int_params = [''loc'' \<mapsto> be_zeros num_units],
      penalties = [], constraints = [],
      cls = BernoulliLayer, len = num_units, sample_size = 0,
      ext_params = [''field'' \<mapsto> None]\<rparr>"

definition ExponentialLayer_init :: "nat \<Rightarrow> unit_layer" where
  "ExponentialLayer_init num_units =
     \<lparr>int_params = [''loc'' \<mapsto> be_zeros num_units],
      penalties = [], constraints = [],
      cls = ExponentialLayer, len = num_units, sample_size = 0,
      ext_params = [''rate'' \<mapsto> None]\<rparr>"

subsection \<open>Gaussian\<close>

definition GaussianLayer_log_partition_function :: "unit_layer \<Rightarrow> tensor \<Rightarrow> tensor" where
  "GaussianLayer_log_partition_function self phi =
     (let scale = be_exp (the (int_params self ''log_var''));
          logZ = t_mul (be_broadcast (the (int_params self ''loc'')) phi) phi;
          logZ = t_add logZ (t_mul (be_broadcast scale phi) (be_square phi));
          logZ = t_add logZ (be_log (be_broadcast scale phi))
      in logZ)"

text \<open>
  The log-partition function as the spec's table states it, for one unit with intrinsic
  parameters \<open>loc\<close> and \<open>log_var\<close> and field \<open>phi\<close>:
  \<open>loc * phi + var * phi\<^sup>2 / 2 + log var\<close> with \<open>var = exp log_var\<close>.
\<close>

definition spec_gaussian_log_partition :: "real \<Rightarrow> real \<Rightarrow> real \<Rightarrow> real" where
  "spec_gaussian_log_partition loc log_var phi =
     loc * phi + exp log_var * phi ^ 2 / 2 + ln (exp log_var)"

text \<open>
  \<^verbatim>\<open>online_param_update\<close>. \<^verbatim>\<open>self.sample_size / new_sample_size\<close> divides two Python
  integers and raises \<^verbatim>\<open>ZeroDivisionError\<close> when the divisor is zero. On a layer whose
  parameters have the length of the layer and a batch with one column per unit it is the
  only statement that can raise, and it is evaluated before the first assignment to the
  object (the in-place rescaling of \<^verbatim>\<open>loc\<close>).
\<close>

definition GaussianLayer_online_param_update :: "unit_layer \<Rightarrow> tensor \<Rightarrow> error + unit_layer" where
  "GaussianLayer_online_param_update self data =
     (let n = t_len data;
          new_sample_size = n + sample_size self;
          x2 = be_exp (the (int_params self ''log_var''));
          x2 = t_add x2 (t_pow2 (the (int_params self ''loc'')))
      in if new_sample_size = 0 then Inl (ZeroDivisionError ''division by zero'')
         else
           let loc = t_scale (the (int_params self ''loc''))
                       (real (sample_size self) / real new_sample_size);
               loc = t_add loc
                       (t_div_scalar (t_scale (be_mean_axis0 data) (real n)) (real new_sample_size));
               x2 = t_scale x2 (real (sample_size self) / real new_sample_size);
               x2 = t_add x2
                      (t_div_scalar (t_scale (be_mean_axis0 (be_square data)) (real n))
                         (real new_sample_size));
               log_var = be_log (t_sub x2 (t_pow2 loc))
           in Inr (self\<lparr>int_params := (int_params self)(''loc'' \<mapsto> loc, ''log_var'' \<mapsto> log_var),
                         sample_size := new_sample_size\<rparr>))"

definition GaussianLayer_shrink_parameters :: "unit_layer \<Rightarrow> real \<Rightarrow> unit_layer" where
  "GaussianLayer_shrink_parameters self shrinkage =
     (let var = be_exp (the (int_params self ''log_var''));
          var = be_mix_inplace (1 - shrinkage) var (be_ones_like var)
      in self\<lparr>int_params := (int_params self)(''log_var'' \<mapsto> be_log var)\<rparr>)"

definition GaussianLayer_update ::
  "unit_layer \<Rightarrow> tensor \<Rightarrow> tensor \<Rightarrow> tensor option \<Rightarrow> unit_layer" where
  "GaussianLayer_update self scaled_units weights beta =
     (let mean = be_dot scaled_units weights;
          mean = (case beta of None \<Rightarrow> mean | Some b \<Rightarrow> t_mul mean (be_broadcast b mean));
          mean = t_add mean (be_broadcast (the (int_params self ''loc'')) mean);
          variance = be_broadcast (be_exp (the (int_params self ''log_var''))) mean
      in self\<lparr>ext_params := (ext_params self)(''mean'' \<mapsto> Some mean, ''variance'' \<mapsto> Some variance)\<rparr>)"

text \<open>
  \<^verbatim>\<open>mode\<close> and \<^verbatim>\<open>mean\<close> return \<^verbatim>\<open>self.ext_params['mean']\<close>: \<^verbatim>\<open>None\<close> before the first
  \<^verbatim>\<open>update\<close>, the tensor afterwards; a missing key raises \<^verbatim>\<open>KeyError\<close>.
\<close>

definition GaussianLayer_mode :: "unit_layer \<Rightarrow> error + tensor option" where
  "GaussianLayer_mode self =
     (case ext_params self ''mean'' of None \<Rightarrow> Inl (KeyError ''mean'') | Some t \<Rightarrow> Inr t)"

definition GaussianLayer_mean :: "unit_layer \<Rightarrow> error + tensor option" where
  "GaussianLayer_mean self =
     (case ext_params self ''mean'' of None \<Rightarrow> Inl (KeyError ''mean'') | Some t \<Rightarrow> Inr t)"

subsection \<open>Ising\<close>

definition IsingLayer_online_param_update :: "unit_layer \<Rightarrow> tensor \<Rightarrow> error + unit_layer" where
  "IsingLayer_online_param_update self data =
     (let n = t_len data;
          new_sample_size = n + sample_size self;
          x = be_tanh (the (int_params self ''loc''))
      in if new_sample_size = 0 then Inl (ZeroDivisionError ''division by zero'')
         else
           let x = t_scale x (real (sample_size self) / real new_sample_size);
               x = t_add x
                     (t_div_scalar (t_scale (be_mean_axis0 data) (real n)) (real new_sample_size))
           in Inr (self\<lparr>int_params := (int_params self)(''loc'' \<mapsto> be_atanh x),
                         sample_size := new_sample_size\<rparr>))"

definition IsingLayer_update ::
  "unit_layer \<Rightarrow> tensor \<Rightarrow> tensor \<Rightarrow> tensor option \<Rightarrow> unit_layer" where
  "IsingLayer_update self scaled_units weights beta =
     (let field = be_dot scaled_units weights;
          field = (case beta of None \<Rightarrow> field | Some b \<Rightarrow> t_mul field (be_broadcast b field));
          field = t_add field (be_broadcast (the (int_params self ''loc'')) field)
      in self\<lparr>ext_params := (ext_params self)(''field'' \<mapsto> Some field)\<rparr>)"

subsection \<open>Bernoulli\<close>

definition BernoulliLayer_online_param_update :: "unit_layer \<Rightarrow> tensor \<Rightarrow> error + unit_layer" where
  "BernoulliLayer_online_param_update self data =
     (let n = t_len data;
          new_sample_size = n + sample_size self;
          x = be_expit (the (int_params self ''loc''))
      in if new_sample_size = 0 then Inl (ZeroDivisionError ''division by zero'')
         else
           let x = t_scale x (real (sample_size self) / real new_sample_size);
               x = t_add x
                     (t_div_scalar (t_scale (be_mean_axis0 data) (real n)) (real new_sample_size))
           in Inr (self\<lparr>int_params := (int_params self)(''loc'' \<mapsto> be_logit x),
                         sample_size := new_sample_size\<rparr>))"

definition BernoulliLayer_update ::
  "unit_layer \<Rightarrow> tensor \<Rightarrow> tensor \<Rightarrow> tensor option \<Rightarrow> unit_layer" where
  "BernoulliLayer_update self scaled_units weights beta =
     (let field = be_dot scaled_units weights;
          field = (case beta of None \<Rightarrow> field | Some b \<Rightarrow> t_mul field (be_broadcast b field));
          field = t_add field (be_broadcast (the (int_params self ''loc'')) field)
      in self\<lparr>ext_params := (ext_params self)(''field'' \<mapsto> Some field)\<rparr>)"

subsection \<open>Exponential\<close>

text \<open>
  \<^verbatim>\<open>mode\<close> is the single statement
  \<^verbatim>\<open>raise NotImplementedError("Exponential distribution has no mode.")\<close>.
\<close>

definition ExponentialLayer_mode :: "unit_layer \<Rightarrow> error + tensor" where
  "ExponentialLayer_mode self = Inl (NotImplementedError ''Exponential distribution has no mode.'')"

text \<open>
  \<^verbatim>\<open>def mean(self)\<close> has no parameter besides \<^verbatim>\<open>self\<close>. \<open>args\<close> are the further
  positional arguments of a call: Python binds the arguments before it runs the body and
  raises \<^verbatim>\<open>TypeError\<close> when there are more than the signature takes. The body is
  \<^verbatim>\<open>be.reciprocal(self.ext_params['rate'])\<close>; before the first \<^verbatim>\<open>update\<close> the entry is
  \<^verbatim>\<open>None\<close>, of which the backend has no reciprocal.
\<close>

definition ExponentialLayer_mean :: "unit_layer \<Rightarrow> tensor list \<Rightarrow> error + tensor" where
  "ExponentialLayer_mean self args =
     (if args \<noteq> [] then
        Inl (TypeError ''mean() takes 1 positional argument but 2 were given'')
      else
        (case ext_params self ''rate'' of
           None \<Rightarrow> Inl (KeyError ''rate'')
         | Some None \<Rightarrow> Inl (TypeError ''reciprocal of None'')
         | Some (Some rate) \<Rightarrow> Inr (be_reciprocal rate)))"

text \<open>
  \<^verbatim>\<open>online_param_update\<close>: the first moment is read by
  \<^verbatim>\<open>x = self.mean(self.int_params['loc'])\<close>, a call of \<^verbatim>\<open>mean\<close> with one further
  argument.
\<close>

definition ExponentialLayer_online_param_update :: "unit_layer \<Rightarrow> tensor \<Rightarrow> error + unit_layer" where
  "ExponentialLayer_online_param_update self data =
     (let n = t_len data;
          new_sample_size = n + sample_size self
      in case ExponentialLayer_mean self [the (int_params self ''loc'')] of
           Inl e \<Rightarrow> Inl e
         | Inr x \<Rightarrow>
             if new_sample_size = 0 then Inl (ZeroDivisionError ''division by zero'')
             else
               let x = t_scale x (real (sample_size self) / real new_sample_size);
                   x = t_add x
                         (t_div_scalar (t_scale (be_mean_axis0 data) (real n))
                            (real new_sample_size))
               in Inr (self\<lparr>int_params := (int_params self)(''loc'' \<mapsto> be_reciprocal x),
                             sample_size := new_sample_size\<rparr>))"

text \<open>
  The update that the spec describes for the Exponential layer: the running mean is
  \<open>1 / loc\<close>, it follows the weighted recursion, \<open>loc\<close> becomes its reciprocal and
  \<open>sample_size\<close> grows by the number of rows.
\<close>

definition spec_exponential_online_param_update :: "unit_layer \<Rightarrow> tensor \<Rightarrow> unit_layer" where
  "spec_exponential_online_param_update self data =
     (let n = t_len data;
          n_prev = sample_size self;
          m_prev = be_reciprocal (the (int_params self ''loc''));
          m_new = t_add (t_scale m_prev (real n_prev / real (n_prev + n)))
                    (t_scale (be_mean_axis0 data) (real n / real (n_prev + n)))
      in self\<lparr>int_params := (int_params self)(''loc'' \<mapsto> be_reciprocal m_new),
                sample_size := n_prev + n\<rparr>)"

definition ExponentialLayer_update ::
  "unit_layer \<Rightarrow> tensor \<Rightarrow> tensor \<Rightarrow> tensor option \<Rightarrow> unit_layer" where
  "ExponentialLayer_update self scaled_units weights beta =
     (let rate = t_neg (be_dot scaled_units weights);
          rate = (case beta of None \<Rightarrow> rate | Some b \<Rightarrow> t_mul rate (be_broadcast b rate));
          rate = t_add rate (be_broadcast (the (int_params self ''loc'')) rate)
      in self\<lparr>ext_params := (ext_params self)(''rate'' \<mapsto> Some rate)\<rparr>)"

text \<open>
  The extrinsic parameters as the spec states them (section 4.3). \<open>spec_field\<close> is entry
  \<open>(k, i)\<close> of the field \<open>phi = scaled_units \<cdot> weights\<close>, scaled by the inverse temperature
  \<open>beta\<^sub>k\<close> of sample \<open>k\<close> when \<open>beta\<close> is given; \<open>tensor_of_entries\<close> is the matrix of
  \<open>num_samples\<close> rows and \<open>num_units\<close> columns with the given entries.
\<close>

definition spec_field ::
  "real list list \<Rightarrow> real list list \<Rightarrow> real list list option \<Rightarrow> nat \<Rightarrow> nat \<Rightarrow> real" where
  "spec_field scaled_units weights beta k i =
     (case beta of
        None \<Rightarrow> (\<Sum>c\<leftarrow>[0..<length weights]. scaled_units ! k ! c * weights ! c ! i)
      | Some b \<Rightarrow>
          hd (b ! k) * (\<Sum>c\<leftarrow>[0..<length weights]. scaled_units ! k ! c * weights ! c ! i))"

definition tensor_of_entries :: "nat \<Rightarrow> nat \<Rightarrow> (nat \<Rightarrow> nat \<Rightarrow> real) \<Rightarrow> tensor" where
  "tensor_of_entries num_samples num_units f =
     Mat (map (\<lambda>k. map (\<lambda>i. f k i) [0..<num_units]) [0..<num_samples])"

section \<open>Method calls on a unit layer\<close>

text \<open>
  The calls that a trainer or initializer can make on a unit layer, with their arguments.
  \<open>Readout\<close> stands for a call of one of the methods that assign nothing on the object
  (\<^verbatim>\<open>energy\<close>, \<^verbatim>\<open>log_partition_function\<close>, \<^verbatim>\<open>derivatives\<close>, \<^verbatim>\<open>rescale\<close>, \<^verbatim>\<open>mode\<close>, \<^verbatim>\<open>mean\<close>,
  \<^verbatim>\<open>sample_state\<close>, \<^verbatim>\<open>random\<close>, \<^verbatim>\<open>get_penalties\<close>, \<^verbatim>\<open>get_penalty_gradients\<close>); it carries
  the exception that the call raised, if any.
\<close>

datatype method_call =
    AddConstraint "(string \<times> constraint) list"
  | EnforceConstraints
  | AddPenalty "(string \<times> penalty) list"
  | ParameterStep "(string \<times> tensor) list"
  | OnlineParamUpdate tensor
  | ShrinkParameters real
  | Update tensor tensor "tensor option"
  | Readout "error option"

text \<open>Dynamic dispatch on the class of the object.\<close>

definition online_param_update :: "unit_layer \<Rightarrow> tensor \<Rightarrow> error + unit_layer" where
  "online_param_update self data =
     (case cls self of
        GaussianLayer \<Rightarrow> GaussianLayer_online_param_update self data
      | IsingLayer \<Rightarrow> IsingLayer_online_param_update self data
      | BernoulliLayer \<Rightarrow> BernoulliLayer_online_param_update self data
      | ExponentialLayer \<Rightarrow> ExponentialLayer_online_param_update self data)"

definition shrink_parameters :: "unit_layer \<Rightarrow> real \<Rightarrow> unit_layer" where
  "shrink_parameters self shrinkage =
     (case cls self of
        GaussianLayer \<Rightarrow> GaussianLayer_shrink_parameters self shrinkage
      | IsingLayer \<Rightarrow> self
      | BernoulliLayer \<Rightarrow> self
      | ExponentialLayer \<Rightarrow> self)"

definition update :: "unit_layer \<Rightarrow> tensor \<Rightarrow> tensor \<Rightarrow> tensor option \<Rightarrow> unit_layer" where
  "update self scaled_units weights beta =
     (case cls self of
        GaussianLayer \<Rightarrow> GaussianLayer_update self scaled_units weights beta
      | IsingLayer \<Rightarrow> IsingLayer_update self scaled_units weights beta
      | BernoulliLayer \<Rightarrow> BernoulliLayer_update self scaled_units weights beta
      | ExponentialLayer \<Rightarrow> ExponentialLayer_update self scaled_units weights beta)"

text \<open>
  One call: the object after it, and the exception it raised, if any. The caller may
  catch the exception and go on using the object. The equations are meant for calls
  whose tensors fit the layer (\<open>call_ok\<close> below): there the only exceptions of an
  \<^verbatim>\<open>online_param_update\<close> are the \<^verbatim>\<open>ZeroDivisionError\<close> and, for the Exponential layer,
  the \<^verbatim>\<open>TypeError\<close>, both raised before the method assigns anything.
\<close>

fun exec :: "method_call \<Rightarrow> unit_layer \<Rightarrow> unit_layer \<times> error option" where
  "exec (AddConstraint c) self = Layer_add_constraint self c"
| "exec EnforceConstraints self = Layer_enforce_constraints self"
| "exec (AddPenalty p) self = (Layer_add_penalty self p, None)"
| "exec (ParameterStep deltas) self = Layer_parameter_step self deltas"
| "exec (OnlineParamUpdate data) self =
     (case online_param_update self data of
        Inl e \<Rightarrow> (self, Some e)
      | Inr self' \<Rightarrow> (self', None))"
| "exec (ShrinkParameters shrinkage) self = (shrink_parameters self shrinkage, None)"
| "exec (Update scaled_units weights beta) self = (update self scaled_units weights beta, None)"
| "exec (Readout raised) self = (self, raised)"

fun run :: "method_call list \<Rightarrow> unit_layer \<Rightarrow> unit_layer" where
  "run [] self = self"
| "run (c # cs) self = run cs (fst (exec c self))"

text \<open>
  The rows absorbed by a sequence of calls: the rows of every batch passed to an
  \<^verbatim>\<open>online_param_update\<close> that returned without an exception.
\<close>

fun rows_absorbed :: "method_call list \<Rightarrow> unit_layer \<Rightarrow> nat" where
  "rows_absorbed [] self = 0"
| "rows_absorbed (OnlineParamUpdate data # cs) self =
     (if snd (exec (OnlineParamUpdate data) self) = None then t_len data else 0)
       + rows_absorbed cs (fst (exec (OnlineParamUpdate data) self))"
| "rows_absorbed (c # cs) self = rows_absorbed cs (fst (exec c self))"

fun is_online_param_update :: "method_call \<Rightarrow> bool" where
  "is_online_param_update (OnlineParamUpdate data) = True"
| "is_online_param_update c = False"

text \<open>
  The shape of a tensor: the length of a vector, the lengths of the rows of a matrix.
\<close>

fun t_shape :: "tensor \<Rightarrow> nat + nat list" where
  "t_shape (Vec v) = Inl (length v)"
| "t_shape (Mat rows) = Inr (map length rows)"

text \<open>
  A unit layer as its constructor leaves it and the methods keep it: \<^verbatim>\<open>loc\<close> (and
  \<^verbatim>\<open>log_var\<close> of a Gaussian layer) is a vector with one entry per unit.
\<close>

definition layer_ok :: "unit_layer \<Rightarrow> bool" where
  "layer_ok self =
     (map_option t_shape (int_params self ''loc'') = Some (Inl (len self))
      \<and> (cls self \<noteq> GaussianLayer
           \<or> map_option t_shape (int_params self ''log_var'') = Some (Inl (len self))))"

text \<open>
  A call whose tensors fit the layer, as the docstrings of the methods require them:
  a batch is a matrix with one column per unit, a delta has the shape of the parameter
  it is subtracted from, \<^verbatim>\<open>scaled_units\<close>, \<^verbatim>\<open>weights\<close> and \<^verbatim>\<open>beta\<close> have the shapes
  \<open>(num_samples, num_connected)\<close>, \<open>(num_connected, num_units)\<close> and \<open>(num_samples, 1)\<close>.
  A batch without rows is passed to a layer that has absorbed no row, where the program
  raises \<^verbatim>\<open>ZeroDivisionError\<close>; on a layer that has absorbed rows the program turns the
  parameters into \<^verbatim>\<open>NaN\<close>, which the real numbers lack.
\<close>

fun call_ok :: "method_call \<Rightarrow> unit_layer \<Rightarrow> bool" where
  "call_ok (OnlineParamUpdate (Mat rows)) self =
     (list_all (\<lambda>r. length r = len self) rows \<and> (rows \<noteq> [] \<or> sample_size self = 0))"
| "call_ok (OnlineParamUpdate (Vec v)) self = False"
| "call_ok (ParameterStep deltas) self =
     (distinct (map fst deltas)
      \<and> list_all (\<lambda>(name, d). case int_params self name of
                                  None \<Rightarrow> True
                                | Some v \<Rightarrow> t_shape d = t_shape v) deltas)"
| "call_ok (Update (Mat scaled_units) (Mat weights) beta) self =
     (weights \<noteq> [] \<and> list_all (\<lambda>r. length r = len self) weights
      \<and> list_all (\<lambda>r. length r = length weights) scaled_units
      \<and> (case beta of
            None \<Rightarrow> True
          | Some (Mat b) \<Rightarrow> length b = length scaled_units \<and> list_all (\<lambda>r. length r = 1) b
          | Some (Vec v) \<Rightarrow> False))"
| "call_ok (Update scaled_units weights beta) self = False"
| "call_ok c self = True"

fun calls_ok :: "method_call list \<Rightarrow> unit_layer \<Rightarrow> bool" where
  "calls_ok [] self = True"
| "calls_ok (c # cs) self = (call_ok c self \<and> calls_ok cs (fst (exec c self)))"

section \<open>The layer registry\<close>

text \<open>
  A key is a Python string, modelled by its code points below 256. \<^verbatim>\<open>str.lower()\<close> maps
  the capitals \<^verbatim>\<open>A\<close> to \<^verbatim>\<open>Z\<close> and the Latin-1 capitals (code points 192 to 222, without the
  multiplication sign 215) to the letter 32 places later and leaves every other such
  code point as it is.
\<close>

definition lower_char :: "char \<Rightarrow> char" where
  "lower_char c =
     (let n = (of_char c :: nat)
      in if (65 \<le> n \<and> n \<le> 90) \<or> (192 \<le> n \<and> n \<le> 222 \<and> n \<noteq> 215)
         then char_of (n + 32) else c)"

definition lower :: "string \<Rightarrow> string" where
  "lower s = map lower_char s"

text \<open>The substring test \<^verbatim>\<open>token in s\<close>.\<close>

fun str_contains :: "string \<Rightarrow> string \<Rightarrow> bool" where
  "str_contains token [] = (token = [])"
| "str_contains token (c # cs) = (prefix token (c # cs) \<or> str_contains token cs)"

definition get :: "string \<Rightarrow> error + layer_class" where
  "get key =
     (if str_contains ''gauss'' (lower key) then Inr GaussianLayer
      else if str_contains ''ising'' (lower key) then Inr IsingLayer
      else if str_contains ''bern'' (lower key) then Inr BernoulliLayer
      else if str_contains ''expo'' (lower key) then Inr ExponentialLayer
      else Inl (ValueError ''Unknown layer type''))"

section \<open>The registry resolves a key by its lower-cased substrings\<close>

lemma str_contains_sublist: "str_contains token s = sublist token s"
  by (induction s) (simp_all add: sublist_Cons_right)

lemma lower_char_idem: "lower_char (lower_char c) = lower_char c"
proof -
  have "of_char (char_of (of_char c + 32 :: nat)) = (of_char c + 32 :: nat)"
    if "(of_char c :: nat) \<le> 222"
    using that by (simp add: of_char_of)
  then show ?thesis
    by (auto simp: lower_char_def Let_def)
qed

lemma lower_idem: "lower (lower s) = lower s"
  by (simp add: lower_def lower_char_idem)

text \<open>
  Claim C8. \<open>get\<close> looks at the lower-cased key only, so the match ignores case; it tests
  the tokens as substrings in the order gauss, ising, bern, expo, the first one found
  deciding the class; the keys \<^verbatim>\<open>GAUSSIAN\<close>, \<^verbatim>\<open>gauss\<close> and \<^verbatim>\<open>Gauss_layer\<close> give the Gaussian
  class; and \<open>get\<close> raises exactly when the lower-cased key holds none of the four tokens,
  the exception then being the \<^verbatim>\<open>ValueError\<close> "Unknown layer type".
\<close>

theorem get_registry:
  "get ''GAUSSIAN'' = Inr GaussianLayer \<and> get ''gauss'' = Inr GaussianLayer
   \<and> get ''Gauss_layer'' = Inr GaussianLayer
   \<and> get key = get (lower key)
   \<and> (get key = Inr GaussianLayer \<longleftrightarrow> sublist ''gauss'' (lower key))
   \<and> (get key = Inr IsingLayer \<longleftrightarrow>
        \<not> sublist ''gauss'' (lower key) \<and> sublist ''ising'' (lower key))
   \<and> (get key = Inr BernoulliLayer \<longleftrightarrow>
        \<not> sublist ''gauss'' (lower key) \<and> \<not> sublist ''ising'' (lower key)
        \<and> sublist ''bern'' (lower key))
   \<and> (get key = Inr ExponentialLayer \<longleftrightarrow>
        \<not> sublist ''gauss'' (lower key) \<and> \<not> sublist ''ising'' (lower key)
        \<and> \<not> sublist ''bern'' (lower key) \<and> sublist ''expo'' (lower key))
   \<and> ((\<exists>e. get key = Inl e) \<longleftrightarrow>
        \<not> sublist ''gauss'' (lower key) \<and> \<not> sublist ''ising'' (lower key)
        \<and> \<not> sublist ''bern'' (lower key) \<and> \<not> sublist ''expo'' (lower key))
   \<and> (\<forall>e. get key = Inl e \<longrightarrow> e = ValueError ''Unknown layer type'')"
proof -
  have a: "get ''GAUSSIAN'' = Inr GaussianLayer" by code_simp
  have b: "get ''gauss'' = Inr GaussianLayer" by code_simp
  have c: "get ''Gauss_layer'' = Inr GaussianLayer" by code_simp
  have d: "get key = get (lower key)" by (simp add: get_def lower_idem)
  show ?thesis
    unfolding a b c
    apply (intro conjI)
             apply simp
            apply simp
           apply simp
          apply (rule d)
         apply (simp_all add: get_def str_contains_sublist)
    done
qed

theorem get_registry_witness:
  "get ''Ising-1'' = Inr IsingLayer \<and> get ''quux'' = Inl (ValueError ''Unknown layer type'')"
proof -
  have i: "\<not> sublist ''gauss'' (lower ''Ising-1'') \<and> sublist ''ising'' (lower ''Ising-1'')"
    unfolding str_contains_sublist [symmetric] by code_simp
  have q: "\<not> sublist ''gauss'' (lower ''quux'') \<and> \<not> sublist ''ising'' (lower ''quux'')
        \<and> \<not> sublist ''bern'' (lower ''quux'') \<and> \<not> sublist ''expo'' (lower ''quux'')"
    unfolding str_contains_sublist [symmetric] by code_simp
  from i have 1: "get ''Ising-1'' = Inr IsingLayer"
    using get_registry [of "''Ising-1''"] by blast
  from q obtain e where "get ''quux'' = Inl e"
    using get_registry [of "''quux''"] by blast
  then have 2: "get ''quux'' = Inl (ValueError ''Unknown layer type'')"
    using get_registry [of "''quux''"] by blast
  from 1 2 show ?thesis by simp
qed

section \<open>Readout of the Exponential and Gaussian layers\<close>

text \<open>
  Claim C9. \<open>mode\<close> on an Exponential layer raises \<^verbatim>\<open>NotImplementedError\<close> and returns no
  value, whatever the intrinsic and extrinsic parameters of the layer are.
\<close>

theorem ExponentialLayer_mode_raises:
  "ExponentialLayer_mode self = Inl (NotImplementedError ''Exponential distribution has no mode.'')
   \<and> (\<forall>v. ExponentialLayer_mode self \<noteq> Inr v)
   \<and> ExponentialLayer_mode (self\<lparr>int_params := ip, ext_params := ep\<rparr>) = ExponentialLayer_mode self"
  by (simp add: ExponentialLayer_mode_def)

text \<open>
  Claim C10. On a Gaussian layer \<open>mode\<close> and \<open>mean\<close> return the same value in every state;
  after an \<open>update\<close> that value is the extrinsic parameter \<^verbatim>\<open>mean\<close> which the update stored.
\<close>

theorem GaussianLayer_mode_eq_mean:
  "GaussianLayer_mode self = GaussianLayer_mean self
   \<and> GaussianLayer_mode (GaussianLayer_update self scaled_units weights beta)
       = GaussianLayer_mean (GaussianLayer_update self scaled_units weights beta)
   \<and> (\<exists>m. ext_params (GaussianLayer_update self scaled_units weights beta) ''mean'' = Some (Some m)
        \<and> GaussianLayer_mode (GaussianLayer_update self scaled_units weights beta) = Inr (Some m)
        \<and> GaussianLayer_mean (GaussianLayer_update self scaled_units weights beta) = Inr (Some m))"
  by (simp add: GaussianLayer_mode_def GaussianLayer_mean_def GaussianLayer_update_def Let_def)

section \<open>The Gaussian log-partition function\<close>

lemma map2_same: "map2 f (map g xs) (map h xs) = map (\<lambda>x. f (g x) (h x)) xs"
  by (induction xs) simp_all

lemma map2_same_left: "map2 f (map g xs) xs = map (\<lambda>x. f (g x) x) xs"
  by (induction xs) simp_all

lemma map2_same_right: "map2 f xs (map h xs) = map (\<lambda>x. f x (h x)) xs"
  by (induction xs) simp_all

lemma GaussianLayer_log_partition_function_entries:
  assumes "int_params self ''loc'' = Some (Vec loc)"
    and "int_params self ''log_var'' = Some (Vec log_var)"
    and "length log_var = length loc"
    and "\<forall>r \<in> set rows. length r = length loc"
  shows "GaussianLayer_log_partition_function self (Mat rows) =
           Mat (map (\<lambda>r. map (\<lambda>i. loc ! i * r ! i + exp (log_var ! i) * (r ! i) ^ 2
                                     + ln (exp (log_var ! i))) [0..<length loc]) rows)"
proof -
  have row: "map2 (+) (map2 (+) (map2 (*) loc r) (map2 (*) (map exp log_var) (map (\<lambda>v. v ^ 2) r)))
          (map ln (map exp log_var))
        = map (\<lambda>i. loc ! i * r ! i + exp (log_var ! i) * (r ! i) ^ 2 + ln (exp (log_var ! i)))
            [0..<length loc]" if "length r = length loc" for r
    using that assms(3) by (intro nth_equalityI) simp_all
  have "GaussianLayer_log_partition_function self (Mat rows) =
          Mat (map (\<lambda>r. map2 (+) (map2 (+) (map2 (*) loc r)
                 (map2 (*) (map exp log_var) (map (\<lambda>v. v ^ 2) r))) (map ln (map exp log_var))) rows)"
    using assms(1,2)
    by (simp add: GaussianLayer_log_partition_function_def Let_def be_exp_def be_log_def
        be_square_def t_mul_def t_add_def map2_same map2_same_left map2_same_right o_def)
  also have "\<dots> = Mat (map (\<lambda>r. map (\<lambda>i. loc ! i * r ! i + exp (log_var ! i) * (r ! i) ^ 2
                                     + ln (exp (log_var ! i))) [0..<length loc]) rows)"
    using assms(4) row by (simp cong: map_cong)
  finally show ?thesis .
qed

text \<open>
  Claim C1. The spec's table gives \<open>loc * phi + var * phi\<^sup>2 / 2 + log var\<close> for every sample
  and unit. The code adds \<open>var * phi\<^sup>2\<close>, without the division by two (see the lemma
  above): on a fresh layer of one unit (\<open>loc = 0\<close>, \<open>log_var = 0\<close>) and the field \<open>1\<close> it
  returns \<open>1\<close> where the spec's formula gives \<open>1 / 2\<close>.
\<close>

theorem GaussianLayer_log_partition_function_unit_field:
  "GaussianLayer_log_partition_function (GaussianLayer_init 1) (Mat [[1]]) = Mat [[1]]
   \<and> spec_gaussian_log_partition 0 0 1 = 1 / 2"
  by (simp add: GaussianLayer_log_partition_function_def GaussianLayer_init_def Let_def
      be_exp_def be_log_def be_square_def be_zeros_def t_mul_def t_add_def
      spec_gaussian_log_partition_def)

section \<open>The Exponential moment update\<close>

text \<open>
  Claim C2. The spec has \<open>online_param_update\<close> of an Exponential layer apply the weighted
  recursion to the mean \<open>1 / loc\<close> and return. The code raises \<^verbatim>\<open>TypeError\<close> on every layer
  and batch, because it calls \<open>mean\<close> with an argument the method does not take. On the
  layer with \<open>loc = 2\<close> reached from a fresh one-unit layer by a parameter step, and the
  batch of the single row \<open>1\<close>, the spec's update would give \<open>loc = 1\<close> and
  \<open>sample_size = 1\<close>.
\<close>

theorem ExponentialLayer_online_param_update_raises:
  "ExponentialLayer_online_param_update self data
     = Inl (TypeError ''mean() takes 1 positional argument but 2 were given'')
   \<and> (let l0 = fst (Layer_parameter_step (ExponentialLayer_init 1) [(''loc'', Vec [- 2])]);
           l1 = spec_exponential_online_param_update l0 (Mat [[1]])
       in int_params l0 ''loc'' = Some (Vec [2]) \<and> sample_size l0 = 0
          \<and> int_params l1 ''loc'' = Some (Vec [1]) \<and> sample_size l1 = 1)"
  by (simp add: ExponentialLayer_online_param_update_def ExponentialLayer_mean_def Let_def
      Layer_parameter_step_def Layer_enforce_constraints_def ExponentialLayer_init_def
      be_zeros_def t_sub_def spec_exponential_online_param_update_def be_reciprocal_def
      t_add_def t_scale_def)

section \<open>Constraints\<close>

text \<open>
  Claim C3. The spec has \<open>add_constraint\<close> register a constraint that \<open>parameter_step\<close> then
  applies. The code raises \<^verbatim>\<open>AttributeError\<close> in \<open>add_constraint\<close> on every layer, since it
  reads the attribute \<^verbatim>\<open>constraint\<close> where the object has \<^verbatim>\<open>constraints\<close>; nothing is
  registered, so a later \<open>parameter_step\<close> subtracts and applies no constraint (a clamp at
  zero would have turned \<open>-1\<close> into \<open>0\<close>). With the dictionary filled directly,
  \<open>parameter_step\<close> subtracts and then raises the same error in \<open>enforce_constraints\<close>.
\<close>

theorem Layer_add_constraint_raises:
  "Layer_add_constraint self c = (self, Some (AttributeError ''constraint''))
   \<and> (let clamp = t_map (max 0);
           l0 = fst (Layer_add_constraint (GaussianLayer_init 1) [(''loc'', clamp)]);
           r0 = Layer_parameter_step l0 [(''loc'', Vec [1])];
           l1 = (GaussianLayer_init 1)\<lparr>constraints := [(''loc'', clamp)]\<rparr>;
           r1 = Layer_parameter_step l1 [(''loc'', Vec [1])]
       in constraints l0 = []
          \<and> snd r0 = None \<and> int_params (fst r0) ''loc'' = Some (Vec [- 1])
          \<and> snd r1 = Some (AttributeError ''constraint'')
          \<and> int_params (fst r1) ''loc'' = Some (Vec [- 1]))"
  by (simp add: Layer_add_constraint_def getattr_constraint_dict_def Let_def
      Layer_parameter_step_def Layer_enforce_constraints_def GaussianLayer_init_def
      be_zeros_def t_sub_def)

section \<open>The sample size counts the absorbed rows\<close>

lemma enforce_loop_sample_size:
  "sample_size (fst (enforce_loop (self :: unit_layer) names)) = sample_size self"
  by (induction names arbitrary: self) (simp_all add: getattr_constraint_dict_def)

lemma Layer_parameter_step_sample_size:
  "sample_size (fst (Layer_parameter_step (self :: unit_layer) deltas)) = sample_size self"
  by (simp add: Layer_parameter_step_def Layer_enforce_constraints_def enforce_loop_sample_size
      split: prod.splits option.splits)

lemma online_param_update_sample_size:
  "online_param_update self data = Inr self' \<Longrightarrow> sample_size self' = sample_size self + t_len data"
  by (auto simp: online_param_update_def GaussianLayer_online_param_update_def
      IsingLayer_online_param_update_def BernoulliLayer_online_param_update_def
      ExponentialLayer_online_param_update_def Let_def
      split: layer_class.splits if_splits sum.splits)

lemma exec_other_sample_size:
  "\<not> is_online_param_update c \<Longrightarrow> sample_size (fst (exec c self)) = sample_size self"
  by (cases c)
    (simp_all add: Layer_add_constraint_def getattr_constraint_dict_def Layer_add_penalty_def
      Layer_enforce_constraints_def enforce_loop_sample_size Layer_parameter_step_sample_size
      shrink_parameters_def GaussianLayer_shrink_parameters_def Let_def update_def
      GaussianLayer_update_def IsingLayer_update_def BernoulliLayer_update_def
      ExponentialLayer_update_def split: layer_class.splits)

lemma exec_online_sample_size:
  "sample_size (fst (exec (OnlineParamUpdate data) self)) =
     sample_size self + (if snd (exec (OnlineParamUpdate data) self) = None then t_len data else 0)"
  by (auto simp: online_param_update_sample_size split: sum.splits)

lemma run_sample_size:
  "sample_size (run calls self) = sample_size self + rows_absorbed calls self"
proof (induction calls arbitrary: self)
  case Nil
  show ?case by simp
next
  case (Cons c calls)
  show ?case
  proof (cases "is_online_param_update c")
    case True
    then obtain data where c: "c = OnlineParamUpdate data" by (cases c) simp_all
    show ?thesis
      unfolding c run.simps rows_absorbed.simps Cons.IH exec_online_sample_size by simp
  next
    case False
    then have "rows_absorbed (c # calls) self = rows_absorbed calls (fst (exec c self))"
      by (cases c) simp_all
    with False show ?thesis
      by (simp add: Cons.IH exec_other_sample_size)
  qed
qed

lemma run_append: "run (calls @ later) self = run later (run calls self)"
  by (induction calls arbitrary: self) simp_all

lemma enforce_loop_cls: "cls (fst (enforce_loop (self :: unit_layer) names)) = cls self"
  by (induction names arbitrary: self) (simp_all add: getattr_constraint_dict_def)

lemma exec_cls: "cls (fst (exec c self)) = cls self"
proof (cases c)
  case (OnlineParamUpdate data)
  then show ?thesis
    by (auto simp: online_param_update_def GaussianLayer_online_param_update_def
        IsingLayer_online_param_update_def BernoulliLayer_online_param_update_def
        ExponentialLayer_online_param_update_def Let_def
        split: layer_class.splits if_splits sum.splits)
qed (simp_all add: Layer_add_constraint_def getattr_constraint_dict_def Layer_add_penalty_def
      Layer_enforce_constraints_def enforce_loop_cls Layer_parameter_step_def
      shrink_parameters_def GaussianLayer_shrink_parameters_def Let_def update_def
      GaussianLayer_update_def IsingLayer_update_def BernoulliLayer_update_def
      ExponentialLayer_update_def split: layer_class.splits prod.splits option.splits)

lemma exec_online_success_iff:
  "snd (exec (OnlineParamUpdate data) self) = None \<longleftrightarrow>
     cls self \<noteq> ExponentialLayer \<and> t_len data + sample_size self \<noteq> 0"
  by (auto simp: online_param_update_def GaussianLayer_online_param_update_def
      IsingLayer_online_param_update_def BernoulliLayer_online_param_update_def
      ExponentialLayer_online_param_update_def ExponentialLayer_mean_def Let_def
      split: layer_class.splits if_splits sum.splits)


lemma enforce_loop_fst: "fst (enforce_loop self names) = self"
  by (cases names) (simp_all add: getattr_constraint_dict_def)

lemma exec_len: "len (fst (exec c self)) = len self"
proof (cases c)
  case (OnlineParamUpdate data)
  then show ?thesis
    by (auto simp: online_param_update_def GaussianLayer_online_param_update_def
        IsingLayer_online_param_update_def BernoulliLayer_online_param_update_def
        ExponentialLayer_online_param_update_def Let_def
        split: layer_class.splits if_splits sum.splits)
qed (simp_all add: Layer_add_constraint_def getattr_constraint_dict_def Layer_add_penalty_def
      Layer_enforce_constraints_def enforce_loop_fst Layer_parameter_step_def
      shrink_parameters_def GaussianLayer_shrink_parameters_def Let_def update_def
      GaussianLayer_update_def IsingLayer_update_def BernoulliLayer_update_def
      ExponentialLayer_update_def split: layer_class.splits prod.splits option.splits)

lemma map_length_map2:
  "map length b = map length a \<Longrightarrow> map length (map2 (map2 f) a b) = map length a"
proof (induction a arbitrary: b)
  case Nil
  then show ?case by simp
next
  case (Cons r a)
  then show ?case by (cases b) simp_all
qed

lemma t_shape_t_sub:
  assumes "t_shape d = t_shape v"
  shows "t_shape (t_sub v d) = t_shape v"
proof (cases v)
  case (Vec a)
  with assms show ?thesis by (cases d) (simp_all add: t_sub_def)
next
  case (Mat a)
  with assms obtain b where d: "d = Mat b" and "map length b = map length a"
    by (cases d) simp_all
  then have "map length (map2 (map2 (-)) a b) = map length a"
    by (simp only: map_length_map2)
  then show ?thesis
    unfolding Mat d t_sub_def t_zip.simps t_shape.simps by (rule arg_cong)
qed

lemma be_subtract_dicts_inplace_shape:
  assumes "list_all (\<lambda>(name, d). case a name of None \<Rightarrow> True
                                   | Some v \<Rightarrow> t_shape d = t_shape v) deltas"
  shows "map_option t_shape (fst (be_subtract_dicts_inplace a deltas) k) = map_option t_shape (a k)"
  using assms
proof (induction deltas arbitrary: a)
  case Nil
  show ?case by simp
next
  case (Cons p deltas)
  obtain key d where p: "p = (key, d)" by (cases p)
  show ?case
  proof (cases "a key")
    case None
    then show ?thesis by (simp add: p)
  next
    case (Some v)
    let ?a = "a(key \<mapsto> t_sub v d)"
    have dv: "t_shape d = t_shape v"
      using Cons.prems Some by (simp add: p)
    then have sv: "t_shape (t_sub v d) = t_shape v" by (rule t_shape_t_sub)
    have "list_all (\<lambda>(name, d). case ?a name of None \<Rightarrow> True
                                   | Some v \<Rightarrow> t_shape d = t_shape v) deltas"
      unfolding list_all_iff
    proof (intro ballI)
      fix q assume q: "q \<in> set deltas"
      obtain name d' where qq: "q = (name, d')" by (cases q)
      have old: "case a name of None \<Rightarrow> True | Some v \<Rightarrow> t_shape d' = t_shape v"
        using Cons.prems q by (auto simp: p qq list_all_iff)
      show "case q of (name, d) \<Rightarrow> case ?a name of None \<Rightarrow> True
                                   | Some v \<Rightarrow> t_shape d = t_shape v"
      proof (cases "name = key")
        case True
        with old Some sv show ?thesis by (simp add: qq)
      next
        case False
        with old show ?thesis by (simp add: qq)
      qed
    qed
    then have "map_option t_shape (fst (be_subtract_dicts_inplace ?a deltas) k)
               = map_option t_shape (?a k)"
      by (rule Cons.IH)
    also have "\<dots> = map_option t_shape (a k)"
      using Some sv by simp
    finally show ?thesis by (simp add: p Some)
  qed
qed

lemma Layer_parameter_step_shape:
  assumes "call_ok (ParameterStep deltas) self"
  shows "map_option t_shape (int_params (fst (Layer_parameter_step self deltas)) k)
         = map_option t_shape (int_params self k)"
proof -
  have "list_all (\<lambda>(name, d). case int_params self name of None \<Rightarrow> True
                                   | Some v \<Rightarrow> t_shape d = t_shape v) deltas"
    using assms by simp
  from be_subtract_dicts_inplace_shape [OF this, of k]
  have s: "map_option t_shape (fst (be_subtract_dicts_inplace (int_params self) deltas) k)
           = map_option t_shape (int_params self k)" .
  obtain a e where r: "be_subtract_dicts_inplace (int_params self) deltas = (a, e)"
    by (cases "be_subtract_dicts_inplace (int_params self) deltas")
  from s show ?thesis
    unfolding r by (cases e)
      (simp_all add: Layer_parameter_step_def r Layer_enforce_constraints_def enforce_loop_fst)
qed

lemma shape_VecD:
  "map_option t_shape p = Some (Inl n) \<Longrightarrow> \<exists>v. p = Some (Vec v) \<and> length v = n"
  by (cases p) (auto elim: t_shape.elims)

lemma ncols_batch:
  "rows \<noteq> [] \<Longrightarrow> list_all (\<lambda>r. length r = n) rows \<Longrightarrow> ncols rows = n"
  by (cases rows) simp_all

lemma moment_update_shape:
  assumes "length x = n" and "rows \<noteq> []" and "list_all (\<lambda>r. length r = n) rows"
  shows "t_shape (t_add (t_scale (Vec x) c)
                   (t_div_scalar (t_scale (be_mean_axis0 (Mat rows)) a) b)) = Inl n"
  using assms by (simp add: t_add_def t_scale_def t_div_scalar_def ncols_batch)


lemma t_shape_t_map: "t_shape (t_map f t) = t_shape t"
  by (cases t) simp_all

lemma t_shape_t_zip_Vec:
  "t_shape a = Inl n \<Longrightarrow> t_shape b = Inl n \<Longrightarrow> t_shape (t_zip f a b) = Inl n"
  by (cases a; cases b) simp_all

lemma t_shape_be_mean_axis0: "t_shape (be_mean_axis0 (Mat rows)) = Inl (ncols rows)"
  by simp

lemmas shape_simps =
  t_shape_t_map t_shape_t_zip_Vec t_add_def t_sub_def t_scale_def t_div_scalar_def t_pow2_def
  be_exp_def be_log_def be_tanh_def be_atanh_def be_expit_def be_logit_def be_square_def

lemma layer_okD:
  assumes "layer_ok self"
  shows "\<exists>v. int_params self ''loc'' = Some v \<and> t_shape v = Inl (len self)"
    and "cls self = GaussianLayer \<Longrightarrow>
         \<exists>w. int_params self ''log_var'' = Some w \<and> t_shape w = Inl (len self)"
  using assms by (auto simp: layer_ok_def)

lemma online_param_update_layer_ok:
  assumes "layer_ok self" and "call_ok (OnlineParamUpdate data) self"
  shows "layer_ok (fst (exec (OnlineParamUpdate data) self))"
proof -
  obtain rows where data: "data = Mat rows"
    and w: "list_all (\<lambda>r. length r = len self) rows"
    and e: "rows \<noteq> [] \<or> sample_size self = 0"
    using assms(2) by (cases data) simp_all
  obtain v where v: "int_params self ''loc'' = Some v" "t_shape v = Inl (len self)"
    using layer_okD(1) [OF assms(1)] by blast
  show ?thesis
  proof (cases "rows = []")
    case True
    with e have "sample_size self = 0" by simp
    with True assms(1) show ?thesis
      by (simp add: data online_param_update_def GaussianLayer_online_param_update_def
          IsingLayer_online_param_update_def BernoulliLayer_online_param_update_def
          ExponentialLayer_online_param_update_def ExponentialLayer_mean_def Let_def
          split: layer_class.splits)
  next
    case False
    then have nc: "ncols rows = len self" using w by (rule ncols_batch)
    have nc2: "ncols (map (map f) rows) = len self" for f :: "real \<Rightarrow> real"
      using False w by (cases rows) simp_all
    have m: "t_shape (be_mean_axis0 (Mat rows)) = Inl (len self)"
      using nc by simp
    have m2: "t_shape (be_mean_axis0 (Mat (map (map f) rows))) = Inl (len self)"
      for f :: "real \<Rightarrow> real"
      using nc2 [of f] by simp
    have ne: "length rows + sample_size self \<noteq> 0" using False by simp
    show ?thesis
    proof (cases "cls self")
      case GaussianLayer
      obtain lv where lv: "int_params self ''log_var'' = Some lv" "t_shape lv = Inl (len self)"
        using layer_okD(2) [OF assms(1) GaussianLayer] by blast
      show ?thesis
        using GaussianLayer v lv m m2 ne
        by (simp add: data online_param_update_def GaussianLayer_online_param_update_def
            Let_def layer_ok_def shape_simps del: be_mean_axis0.simps)
    next
      case IsingLayer
      then show ?thesis
        using v m ne
        by (simp add: data online_param_update_def IsingLayer_online_param_update_def
            Let_def layer_ok_def shape_simps del: be_mean_axis0.simps)
    next
      case BernoulliLayer
      then show ?thesis
        using v m ne
        by (simp add: data online_param_update_def BernoulliLayer_online_param_update_def
            Let_def layer_ok_def shape_simps del: be_mean_axis0.simps)
    next
      case ExponentialLayer
      then show ?thesis
        using assms(1)
        by (simp add: data online_param_update_def ExponentialLayer_online_param_update_def
            ExponentialLayer_mean_def Let_def)
    qed
  qed
qed

lemma exec_layer_ok:
  assumes "layer_ok self" and "call_ok c self"
  shows "layer_ok (fst (exec c self))"
proof (cases c)
  case (AddConstraint x)
  with assms(1) show ?thesis
    by (simp add: Layer_add_constraint_def getattr_constraint_dict_def)
next
  case EnforceConstraints
  with assms(1) show ?thesis
    by (simp add: Layer_enforce_constraints_def enforce_loop_fst)
next
  case (AddPenalty x)
  with assms(1) show ?thesis
    by (simp add: Layer_add_penalty_def layer_ok_def)
next
  case (ParameterStep deltas)
  have "map_option t_shape (int_params (fst (exec c self)) k)
        = map_option t_shape (int_params self k)" for k
    using assms(2) unfolding ParameterStep exec.simps by (rule Layer_parameter_step_shape)
  with assms(1) show ?thesis
    by (simp add: layer_ok_def exec_len exec_cls)
next
  case (OnlineParamUpdate data)
  with assms show ?thesis by (simp only: online_param_update_layer_ok)
next
  case (ShrinkParameters shrinkage)
  show ?thesis
  proof (cases "cls self")
    case GaussianLayer
    obtain lv where lv: "int_params self ''log_var'' = Some lv" "t_shape lv = Inl (len self)"
      using layer_okD(2) [OF assms(1) GaussianLayer] by blast
    have "t_shape (be_mix_inplace w (be_exp lv) (be_ones_like (be_exp lv))) = Inl (len self)"
      for w
      using lv(2) by (simp add: be_mix_inplace_def shape_simps)
    with assms(1) GaussianLayer lv show ?thesis
      by (simp add: ShrinkParameters shrink_parameters_def GaussianLayer_shrink_parameters_def
          Let_def layer_ok_def be_log_def t_shape_t_map)
  next
    case IsingLayer
    with assms(1) show ?thesis by (simp add: ShrinkParameters shrink_parameters_def)
  next
    case BernoulliLayer
    with assms(1) show ?thesis by (simp add: ShrinkParameters shrink_parameters_def)
  next
    case ExponentialLayer
    with assms(1) show ?thesis by (simp add: ShrinkParameters shrink_parameters_def)
  qed
next
  case (Update su w beta)
  with assms(1) show ?thesis
    by (simp add: update_def GaussianLayer_update_def IsingLayer_update_def
        BernoulliLayer_update_def ExponentialLayer_update_def Let_def layer_ok_def
        split: layer_class.splits)
next
  case (Readout raised)
  with assms(1) show ?thesis by simp
qed

lemma run_layer_ok:
  "layer_ok self \<Longrightarrow> calls_ok calls self \<Longrightarrow> layer_ok (run calls self)"
  by (induction calls arbitrary: self) (simp_all add: exec_layer_ok del: exec.simps)

lemma calls_ok_append:
  "calls_ok (calls @ later) self \<longleftrightarrow> calls_ok calls self \<and> calls_ok later (run calls self)"
  by (induction calls arbitrary: self) (simp_all del: exec.simps)


text \<open>
  Claim C5. Take a unit layer of any of the four classes, with its parameters as the
  constructor shapes them, and any sequence of method calls whose tensors fit the layer;
  each call may raise. Then \<open>sample_size\<close> after the calls is its value before plus the
  rows of the batches that an \<open>online_param_update\<close> absorbed (returned without an
  exception); it decreases at no call and from no point of the sequence to its end; a
  call other than \<open>online_param_update\<close> leaves it as it is; and an
  \<open>online_param_update\<close> that returns adds the number of rows of its batch.
\<close>

theorem sample_size_counts_absorbed_rows:
  assumes "layer_ok self" and "calls_ok (calls @ c # later) self"
  shows "sample_size (run calls self) = sample_size self + rows_absorbed calls self
     \<and> sample_size (run (calls @ c # later) self)
         = sample_size self + rows_absorbed (calls @ c # later) self
     \<and> sample_size (run calls self) \<le> sample_size (fst (exec c (run calls self)))
     \<and> sample_size (run calls self) \<le> sample_size (run (calls @ c # later) self)
     \<and> (\<not> is_online_param_update c \<longrightarrow>
          sample_size (fst (exec c (run calls self))) = sample_size (run calls self))
     \<and> (\<forall>data. c = OnlineParamUpdate data \<and> snd (exec c (run calls self)) = None \<longrightarrow>
          sample_size (fst (exec c (run calls self))) = sample_size (run calls self) + t_len data)"
proof -
  let ?s = "run calls self"
  have step: "sample_size ?s \<le> sample_size (fst (exec c ?s))"
  proof (cases "is_online_param_update c")
    case True
    then obtain data where "c = OnlineParamUpdate data" by (cases c) simp_all
    then show ?thesis by (simp add: exec_online_sample_size del: exec.simps)
  next
    case False
    then show ?thesis by (simp add: exec_other_sample_size del: exec.simps)
  qed
  have "sample_size (run (calls @ c # later) self)
          = sample_size ?s + rows_absorbed (c # later) ?s"
    unfolding run_append by (rule run_sample_size)
  then have mono: "sample_size ?s \<le> sample_size (run (calls @ c # later) self)"
    by simp
  have online: "sample_size (fst (exec c ?s)) = sample_size ?s + t_len data"
    if "c = OnlineParamUpdate data \<and> snd (exec c ?s) = None" for data
  proof -
    from that have c: "c = OnlineParamUpdate data" by (rule conjunct1)
    from that have ok: "snd (exec (OnlineParamUpdate data) ?s) = None"
      unfolding c by (rule conjunct2)
    show ?thesis
      unfolding c exec_online_sample_size ok by simp
  qed
  from step mono online show ?thesis
    using exec_other_sample_size [of c ?s]
    by (simp only: run_sample_size) blast
qed

lemma call_ok_ParameterStep_loc:
  "layer_ok s \<Longrightarrow> length d = len s \<Longrightarrow> call_ok (ParameterStep [(''loc'', Vec d)]) s"
  by (auto simp: layer_ok_def split: option.splits)

theorem sample_size_counts_absorbed_rows_witness:
  "(let self = IsingLayer_init 1;
        calls = [OnlineParamUpdate (Mat [[1], [- 1]]), ParameterStep [(''loc'', Vec [1])]];
        c = OnlineParamUpdate (Mat [[1]])
    in layer_ok self \<and> calls_ok (calls @ c # [Readout None]) self
       \<and> snd (exec c (run calls self)) = None
       \<and> sample_size (run calls self) = 2
       \<and> sample_size (fst (exec c (run calls self))) = 3
       \<and> sample_size (run (calls @ c # [Readout None]) self) = 3)
   \<and> (let self = GaussianLayer_init 2;
          calls = [OnlineParamUpdate (Mat [])];
          c = Update (Mat [[1]]) (Mat [[1, 0]]) None
      in layer_ok self \<and> calls_ok (calls @ c # []) self
         \<and> \<not> is_online_param_update c
         \<and> sample_size (run calls self) = 0
         \<and> sample_size (fst (exec c (run calls self))) = 0)"
proof -
  let ?i = "IsingLayer_init 1"
  let ?u1 = "OnlineParamUpdate (Mat [[1], [- 1]])"
  let ?p = "ParameterStep [(''loc'', Vec [1])]"
  let ?u2 = "OnlineParamUpdate (Mat [[1]])"
  let ?calls = "[?u1, ?p]"
  have i: "layer_ok ?i" "len ?i = 1" "sample_size ?i = 0" "cls ?i = IsingLayer"
    by (simp_all add: IsingLayer_init_def layer_ok_def be_zeros_def)
  have ok1: "call_ok ?u1 ?i" by (simp add: IsingLayer_init_def)
  let ?s1 = "fst (exec ?u1 ?i)"
  have s1: "layer_ok ?s1" using i(1) ok1 by (rule exec_layer_ok)
  have ok2: "call_ok ?p ?s1"
    using s1 by (rule call_ok_ParameterStep_loc) (simp add: exec_len IsingLayer_init_def del: exec.simps)
  let ?s2 = "fst (exec ?p ?s1)"
  have ok3: "call_ok ?u2 ?s2" by (simp add: exec_len IsingLayer_init_def del: exec.simps)
  have ok4: "call_ok (Readout None) s" for s by simp
  have oki: "calls_ok (?calls @ ?u2 # [Readout None]) ?i"
    using ok1 ok2 ok3 ok4 by (simp del: exec.simps call_ok.simps)
  have r2: "run ?calls ?i = ?s2" by (simp del: exec.simps)
  have suc: "snd (exec ?u2 (run ?calls ?i)) = None"
    unfolding r2 exec_online_success_iff by (simp add: exec_cls IsingLayer_init_def del: exec.simps)
  have a: "rows_absorbed ?calls ?i = 2"
    by (simp add: exec_online_success_iff exec_cls exec_online_sample_size
        exec_other_sample_size IsingLayer_init_def del: exec.simps)
  have b: "rows_absorbed (?calls @ ?u2 # [Readout None]) ?i = 3"
    by (simp add: exec_online_success_iff exec_cls exec_online_sample_size
        exec_other_sample_size IsingLayer_init_def del: exec.simps)
  note t = sample_size_counts_absorbed_rows [OF i(1) oki]
  have t1: "sample_size (run ?calls ?i) = 2" using t a i(3) by simp
  have t2: "sample_size (run (?calls @ ?u2 # [Readout None]) ?i) = 3" using t b i(3) by simp
  have t3: "sample_size (fst (exec ?u2 (run ?calls ?i))) = 3"
    using t suc t1 by simp
  let ?g = "GaussianLayer_init 2"
  let ?e = "OnlineParamUpdate (Mat [])"
  let ?up = "Update (Mat [[1]]) (Mat [[1, 0]]) None"
  have g: "layer_ok ?g" "len ?g = 2" "sample_size ?g = 0" "cls ?g = GaussianLayer"
    by (simp_all add: GaussianLayer_init_def layer_ok_def be_zeros_def)
  have okg: "calls_ok ([?e] @ ?up # []) ?g"
    by (simp add: GaussianLayer_init_def exec_len del: exec.simps)
  have n: "\<not> is_online_param_update ?up" by simp
  have c: "rows_absorbed [?e] ?g = 0"
    by (simp add: exec_online_success_iff GaussianLayer_init_def del: exec.simps)
  note u = sample_size_counts_absorbed_rows [OF g(1) okg]
  have u1: "sample_size (run [?e] ?g) = 0" using u c g(3) by simp
  have u2: "sample_size (fst (exec ?up (run [?e] ?g))) = 0" using u n u1 by simp
  from i(1) oki suc t1 t2 t3 g(1) okg n u1 u2 show ?thesis
    unfolding Let_def by blast
qed

section \<open>The extrinsic parameters set by \<open>update\<close>\<close>

lemma tensor_of_entries_eqI:
  assumes "length a = n" and "\<And>k. k < n \<Longrightarrow> length (a ! k) = m"
    and "\<And>k i. k < n \<Longrightarrow> i < m \<Longrightarrow> a ! k ! i = f k i"
  shows "Mat a = tensor_of_entries n m f"
  unfolding tensor_of_entries_def tensor.inject
  using assms by (intro nth_equalityI) simp_all

lemma ncols_rows: "W \<noteq> [] \<Longrightarrow> \<forall>r \<in> set W. length r = U \<Longrightarrow> ncols W = U"
  by (cases W) simp_all

lemma be_dot_entries:
  assumes "W \<noteq> []" and "\<forall>r \<in> set W. length r = U"
  shows "be_dot (Mat S) (Mat W) = tensor_of_entries (length S) U (spec_field S W None)"
proof -
  have nc: "ncols W = U" using assms by (rule ncols_rows)
  show ?thesis
    unfolding be_dot.simps nc
    by (rule tensor_of_entries_eqI) (simp_all add: spec_field_def)
qed

lemma temper_entries:
  assumes "length B = L"
  shows "t_mul (tensor_of_entries L U f) (be_broadcast (Mat B) (tensor_of_entries L U f))
         = tensor_of_entries L U (\<lambda>k i. hd (B ! k) * f k i)"
  unfolding tensor_of_entries_def t_mul_def be_broadcast.simps t_zip.simps
  by (rule tensor_of_entries_eqI [unfolded tensor_of_entries_def]) (simp_all add: assms)

lemma tempered_field:
  assumes "W \<noteq> []" and "\<forall>r \<in> set W. length r = U"
    and "case beta of None \<Rightarrow> True | Some B \<Rightarrow> length B = length S"
  shows "(case map_option Mat beta of
            None \<Rightarrow> be_dot (Mat S) (Mat W)
          | Some b \<Rightarrow> t_mul (be_dot (Mat S) (Mat W)) (be_broadcast b (be_dot (Mat S) (Mat W))))
         = tensor_of_entries (length S) U (spec_field S W beta)"
proof (cases beta)
  case None
  then show ?thesis
    using assms by (simp add: be_dot_entries del: be_dot.simps)
next
  case (Some B)
  then have len: "length B = length S" using assms(3) by simp
  have d: "be_dot (Mat S) (Mat W) = tensor_of_entries (length S) U (spec_field S W None)"
    using assms(1,2) by (rule be_dot_entries)
  have "t_mul (be_dot (Mat S) (Mat W)) (be_broadcast (Mat B) (be_dot (Mat S) (Mat W)))
        = tensor_of_entries (length S) U (\<lambda>k i. hd (B ! k) * spec_field S W None k i)"
    unfolding d using len by (rule temper_entries)
  also have "(\<lambda>k i. hd (B ! k) * spec_field S W None k i) = spec_field S W (Some B)"
    by (simp add: spec_field_def fun_eq_iff)
  finally show ?thesis
    unfolding Some by simp
qed

lemma add_bias:
  assumes "length loc = U"
  shows "t_add (tensor_of_entries L U f) (be_broadcast (Vec loc) (tensor_of_entries L U f))
         = tensor_of_entries L U (\<lambda>k i. f k i + loc ! i)"
  unfolding tensor_of_entries_def t_add_def be_broadcast.simps t_zip.simps
  by (rule tensor_of_entries_eqI [unfolded tensor_of_entries_def]) (simp_all add: assms)

lemma neg_entries:
  "t_neg (tensor_of_entries L U f) = tensor_of_entries L U (\<lambda>k i. - f k i)"
  by (simp add: tensor_of_entries_def t_neg_def o_def)

lemma broadcast_entries:
  "be_broadcast (Vec v) (tensor_of_entries L U f) = tensor_of_entries L (length v) (\<lambda>k i. v ! i)"
  unfolding tensor_of_entries_def be_broadcast.simps
  by (rule tensor_of_entries_eqI [unfolded tensor_of_entries_def]) simp_all


lemma tensor_of_entries_cong:
  "(\<And>k i. k < L \<Longrightarrow> i < U \<Longrightarrow> f k i = g k i) \<Longrightarrow> tensor_of_entries L U f = tensor_of_entries L U g"
  by (simp add: tensor_of_entries_def)

lemma field_plus_bias:
  assumes "W \<noteq> []" and "\<forall>r \<in> set W. length r = U"
    and "case beta of None \<Rightarrow> True | Some B \<Rightarrow> length B = length S"
    and "length loc = U"
  shows "(let field = be_dot (Mat S) (Mat W);
              field = (case map_option Mat beta of None \<Rightarrow> field
                       | Some b \<Rightarrow> t_mul field (be_broadcast b field))
          in t_add field (be_broadcast (Vec loc) field))
         = tensor_of_entries (length S) U (\<lambda>k i. spec_field S W beta k i + loc ! i)"
  unfolding Let_def tempered_field [OF assms(1,2,3)] using assms(4) by (rule add_bias)

lemma rate_plus_bias:
  assumes "W \<noteq> []" and "\<forall>r \<in> set W. length r = U"
    and "case beta of None \<Rightarrow> True | Some B \<Rightarrow> length B = length S"
    and "length loc = U"
  shows "(let rate = t_neg (be_dot (Mat S) (Mat W));
              rate = (case map_option Mat beta of None \<Rightarrow> rate
                      | Some b \<Rightarrow> t_mul rate (be_broadcast b rate))
          in t_add rate (be_broadcast (Vec loc) rate))
         = tensor_of_entries (length S) U (\<lambda>k i. loc ! i - spec_field S W beta k i)"
proof -
  have d: "t_neg (be_dot (Mat S) (Mat W))
           = tensor_of_entries (length S) U (\<lambda>k i. - spec_field S W None k i)"
    unfolding be_dot_entries [OF assms(1,2)] by (rule neg_entries)
  show ?thesis
  proof (cases beta)
    case None
    show ?thesis
      unfolding Let_def None option.map option.case d add_bias [OF assms(4)]
      by (rule tensor_of_entries_cong) simp
  next
    case (Some B)
    then have len: "length B = length S" using assms(3) by simp
    show ?thesis
      unfolding Let_def Some option.map option.case d temper_entries [OF len] add_bias [OF assms(4)]
      by (rule tensor_of_entries_cong) (simp add: spec_field_def)
  qed
qed

text \<open>
  Claim C6. For well-shaped arguments (\<open>scaled_units\<close> of shape
  \<open>(num_samples, num_connected)\<close>, \<open>weights\<close> of shape \<open>(num_connected, num_units)\<close> with at
  least one connected unit, \<open>beta\<close> absent or of shape \<open>(num_samples, 1)\<close>) \<open>update\<close> stores
  \<open>beta\<^sub>k * phi\<^sub>k\<^sub>i + loc\<^sub>i\<close> as \<^verbatim>\<open>field\<close> of an Ising or Bernoulli layer and as \<^verbatim>\<open>mean\<close> of a
  Gaussian layer, \<open>exp log_var\<^sub>i\<close> as \<^verbatim>\<open>variance\<close> of a Gaussian layer, and
  \<open>loc\<^sub>i - beta\<^sub>k * phi\<^sub>k\<^sub>i\<close> as \<^verbatim>\<open>rate\<close> of an Exponential layer, where
  \<open>phi = scaled_units \<cdot> weights\<close> and the factor \<open>beta\<^sub>k\<close> is left out when \<open>beta\<close> is
  \<^verbatim>\<open>None\<close>. For any arguments, the stored values do not depend on the extrinsic
  parameters the layer held before the call.
\<close>

theorem update_extrinsic_parameters:
  assumes "weights \<noteq> []" and "\<forall>r \<in> set weights. length r = num_units"
    and "\<forall>r \<in> set scaled_units. length r = length weights"
    and "case beta of None \<Rightarrow> True
         | Some b \<Rightarrow> length b = length scaled_units \<and> (\<forall>r \<in> set b. length r = 1)"
    and "int_params self ''loc'' = Some (Vec loc)" and "length loc = num_units"
  shows
    "ext_params (IsingLayer_update self (Mat scaled_units) (Mat weights) (map_option Mat beta)) ''field''
       = Some (Some (tensor_of_entries (length scaled_units) num_units
                      (\<lambda>k i. spec_field scaled_units weights beta k i + loc ! i)))
     \<and> ext_params (BernoulliLayer_update self (Mat scaled_units) (Mat weights) (map_option Mat beta))
         ''field''
       = Some (Some (tensor_of_entries (length scaled_units) num_units
                      (\<lambda>k i. spec_field scaled_units weights beta k i + loc ! i)))
     \<and> ext_params (GaussianLayer_update self (Mat scaled_units) (Mat weights) (map_option Mat beta))
         ''mean''
       = Some (Some (tensor_of_entries (length scaled_units) num_units
                      (\<lambda>k i. spec_field scaled_units weights beta k i + loc ! i)))
     \<and> (\<forall>log_var. int_params self ''log_var'' = Some (Vec log_var) \<and> length log_var = num_units \<longrightarrow>
          ext_params (GaussianLayer_update self (Mat scaled_units) (Mat weights) (map_option Mat beta))
            ''variance''
          = Some (Some (tensor_of_entries (length scaled_units) num_units
                         (\<lambda>k i. exp (log_var ! i)))))
     \<and> ext_params (ExponentialLayer_update self (Mat scaled_units) (Mat weights) (map_option Mat beta))
         ''rate''
       = Some (Some (tensor_of_entries (length scaled_units) num_units
                      (\<lambda>k i. loc ! i - spec_field scaled_units weights beta k i)))
     \<and> (\<forall>e u w b.
          ext_params (IsingLayer_update (self\<lparr>ext_params := e\<rparr>) u w b) ''field''
            = ext_params (IsingLayer_update self u w b) ''field''
          \<and> ext_params (BernoulliLayer_update (self\<lparr>ext_params := e\<rparr>) u w b) ''field''
            = ext_params (BernoulliLayer_update self u w b) ''field''
          \<and> ext_params (GaussianLayer_update (self\<lparr>ext_params := e\<rparr>) u w b) ''mean''
            = ext_params (GaussianLayer_update self u w b) ''mean''
          \<and> ext_params (GaussianLayer_update (self\<lparr>ext_params := e\<rparr>) u w b) ''variance''
            = ext_params (GaussianLayer_update self u w b) ''variance''
          \<and> ext_params (ExponentialLayer_update (self\<lparr>ext_params := e\<rparr>) u w b) ''rate''
            = ext_params (ExponentialLayer_update self u w b) ''rate'')"
proof -
  have b: "case beta of None \<Rightarrow> True | Some B \<Rightarrow> length B = length scaled_units"
    using assms(4) by (cases beta) simp_all
  note f = field_plus_bias [OF assms(1,2) b assms(6), unfolded Let_def]
  note r = rate_plus_bias [OF assms(1,2) b assms(6), unfolded Let_def]
  have ising: "ext_params (IsingLayer_update self (Mat scaled_units) (Mat weights)
                 (map_option Mat beta)) ''field''
       = Some (Some (tensor_of_entries (length scaled_units) num_units
                      (\<lambda>k i. spec_field scaled_units weights beta k i + loc ! i)))"
    unfolding IsingLayer_update_def Let_def assms(5) option.sel f by simp
  have bern: "ext_params (BernoulliLayer_update self (Mat scaled_units) (Mat weights)
                 (map_option Mat beta)) ''field''
       = Some (Some (tensor_of_entries (length scaled_units) num_units
                      (\<lambda>k i. spec_field scaled_units weights beta k i + loc ! i)))"
    unfolding BernoulliLayer_update_def Let_def assms(5) option.sel f by simp
  have gmean: "ext_params (GaussianLayer_update self (Mat scaled_units) (Mat weights)
                 (map_option Mat beta)) ''mean''
       = Some (Some (tensor_of_entries (length scaled_units) num_units
                      (\<lambda>k i. spec_field scaled_units weights beta k i + loc ! i)))"
    unfolding GaussianLayer_update_def Let_def assms(5) option.sel f by simp
  have gvar: "ext_params (GaussianLayer_update self (Mat scaled_units) (Mat weights)
                 (map_option Mat beta)) ''variance''
          = Some (Some (tensor_of_entries (length scaled_units) num_units
                         (\<lambda>k i. exp (log_var ! i))))"
    if "int_params self ''log_var'' = Some (Vec log_var)" "length log_var = num_units"
    for log_var
  proof -
    have "be_broadcast (Vec (map exp log_var))
            (tensor_of_entries (length scaled_units) num_units
               (\<lambda>k i. spec_field scaled_units weights beta k i + loc ! i))
          = tensor_of_entries (length scaled_units) num_units (\<lambda>k i. exp (log_var ! i))"
      unfolding broadcast_entries using that(2)
      by (simp add: tensor_of_entries_def)
    then show ?thesis
      unfolding GaussianLayer_update_def Let_def assms(5) that(1) option.sel f
      by (simp add: be_exp_def)
  qed
  have expo: "ext_params (ExponentialLayer_update self (Mat scaled_units) (Mat weights)
                 (map_option Mat beta)) ''rate''
       = Some (Some (tensor_of_entries (length scaled_units) num_units
                      (\<lambda>k i. loc ! i - spec_field scaled_units weights beta k i)))"
    unfolding ExponentialLayer_update_def Let_def assms(5) option.sel r by simp
  have indep: "ext_params (IsingLayer_update (self\<lparr>ext_params := e\<rparr>) u w b) ''field''
            = ext_params (IsingLayer_update self u w b) ''field''
          \<and> ext_params (BernoulliLayer_update (self\<lparr>ext_params := e\<rparr>) u w b) ''field''
            = ext_params (BernoulliLayer_update self u w b) ''field''
          \<and> ext_params (GaussianLayer_update (self\<lparr>ext_params := e\<rparr>) u w b) ''mean''
            = ext_params (GaussianLayer_update self u w b) ''mean''
          \<and> ext_params (GaussianLayer_update (self\<lparr>ext_params := e\<rparr>) u w b) ''variance''
            = ext_params (GaussianLayer_update self u w b) ''variance''
          \<and> ext_params (ExponentialLayer_update (self\<lparr>ext_params := e\<rparr>) u w b) ''rate''
            = ext_params (ExponentialLayer_update self u w b) ''rate''" for e u w b
    by (simp add: IsingLayer_update_def BernoulliLayer_update_def GaussianLayer_update_def
        ExponentialLayer_update_def Let_def del: be_dot.simps)
  from ising bern gmean gvar expo indep show ?thesis by blast
qed


theorem update_extrinsic_parameters_witness:
  "(let self = (GaussianLayer_init 2)\<lparr>int_params := [''loc'' \<mapsto> Vec [1, 2], ''log_var'' \<mapsto> Vec [0, 0]]\<rparr>;
        scaled_units = Mat [[1, 2]];
        weights = Mat [[1, 0], [0, 1]];
        beta = Some (Mat [[2]])
    in ext_params (IsingLayer_update self scaled_units weights beta) ''field''
         = Some (Some (Mat [[3, 6]]))
       \<and> ext_params (BernoulliLayer_update self scaled_units weights None) ''field''
         = Some (Some (Mat [[2, 4]]))
       \<and> ext_params (GaussianLayer_update self scaled_units weights beta) ''mean''
         = Some (Some (Mat [[3, 6]]))
       \<and> ext_params (GaussianLayer_update self scaled_units weights beta) ''variance''
         = Some (Some (Mat [[1, 1]]))
       \<and> ext_params (ExponentialLayer_update self scaled_units weights beta) ''rate''
         = Some (Some (Mat [[- 1, - 2]])))"
proof -
  let ?self = "(GaussianLayer_init 2)\<lparr>int_params := [''loc'' \<mapsto> Vec [1, 2], ''log_var'' \<mapsto> Vec [0, 0]]\<rparr>"
  let ?S = "[[1, 2 :: real]]"
  let ?W = "[[1, 0], [0, 1 :: real]]"
  have h1: "?W \<noteq> []" by simp
  have h2: "\<forall>r \<in> set ?W. length r = 2" by simp
  have h3: "\<forall>r \<in> set ?S. length r = length ?W" by simp
  have h4: "case Some [[2 :: real]] of None \<Rightarrow> True
         | Some b \<Rightarrow> length b = length ?S \<and> (\<forall>r \<in> set b. length r = 1)" by simp
  have h4': "case (None :: real list list option) of None \<Rightarrow> True
         | Some b \<Rightarrow> length b = length ?S \<and> (\<forall>r \<in> set b. length r = 1)" by simp
  have h5: "int_params ?self ''loc'' = Some (Vec [1, 2])" by simp
  have h6: "length [1, 2 :: real] = 2" by simp
  have h7: "int_params ?self ''log_var'' = Some (Vec [0, 0]) \<and> length [0, 0 :: real] = 2" by simp
  have u: "[0..<2] = [0, 1]" "[0..<1] = [0]" by (simp_all add: upt_rec)
  note t = update_extrinsic_parameters [OF h1 h2 h3 h4 h5 h6]
  note t' = update_extrinsic_parameters [OF h1 h2 h3 h4' h5 h6]
  from t have "ext_params (GaussianLayer_update ?self (Mat ?S) (Mat ?W) (Some (Mat [[2]]))) ''variance''
      = Some (Some (tensor_of_entries 1 2 (\<lambda>k i. exp ([0, 0] ! i))))"
    using h7 by simp
  then show ?thesis
    using t t' by (simp add: Let_def tensor_of_entries_def spec_field_def u)
qed

section \<open>The energy of the weight layer\<close>

lemma fold_add_sum_list:
  "fold (\<lambda>j acc. acc + g j) xs (a :: real) = a + sum_list (map g xs)"
  by (induction xs arbitrary: a) simp_all

lemma fold_fold_add_sum_list:
  "fold (\<lambda>i acc. fold (\<lambda>j acc'. acc' + g i j) ys acc) xs (a :: real)
     = a + (\<Sum>i\<leftarrow>xs. \<Sum>j\<leftarrow>ys. g i j)"
  by (induction xs arbitrary: a) (simp_all add: fold_add_sum_list)

lemma energy_double_loop_sum:
  "energy_double_loop W v h
     = - (\<Sum>i\<leftarrow>[0..<length v]. \<Sum>j\<leftarrow>[0..<length h]. W ! i ! j * v ! i * h ! j)"
  by (simp add: energy_double_loop_def fold_fold_add_sum_list)

lemma sum_list_map2_upt:
  "length h = M \<Longrightarrow> sum_list (map2 (*) (map f [0..<M]) h) = (\<Sum>j\<leftarrow>[0..<M]. f j * h ! j)"
proof -
  assume "length h = M"
  then have "map2 (*) (map f [0..<M]) h = map (\<lambda>j. f j * h ! j) [0..<M]"
    by (intro nth_equalityI) simp_all
  then show ?thesis by simp
qed

lemma bilinear_swap:
  "(\<Sum>j\<leftarrow>[0..<M]. (\<Sum>c\<leftarrow>[0..<N]. v c * w c j) * h j)
     = (\<Sum>i\<leftarrow>[0..<N]. \<Sum>j\<leftarrow>[0..<M]. w i j * v i * (h j :: real))"
proof -
  have "(\<Sum>j\<leftarrow>[0..<M]. (\<Sum>c\<leftarrow>[0..<N]. v c * w c j) * h j)
          = (\<Sum>j\<in>{0..<M}. \<Sum>c\<in>{0..<N}. w c j * v c * h j)"
    by (simp add: interv_sum_list_conv_sum_set_nat sum_distrib_right mult.commute [of "v _"])
  also have "\<dots> = (\<Sum>c\<in>{0..<N}. \<Sum>j\<in>{0..<M}. w c j * v c * h j)"
    by (rule sum.swap)
  also have "\<dots> = (\<Sum>i\<leftarrow>[0..<N]. \<Sum>j\<leftarrow>[0..<M]. w i j * v i * h j)"
    by (simp add: interv_sum_list_conv_sum_set_nat)
  finally show ?thesis .
qed

text \<open>
  Claim C7. For a visible batch and a hidden batch with the same number of sample rows,
  well-shaped for the weight matrix, \<open>Weights.energy\<close> returns a vector with one entry per
  sample row \<open>k\<close>, equal to what the explicit double loop over the visible and the hidden
  units computes for that row, that is \<open>- \<Sum>\<^sub>i\<^sub>j W\<^sub>i\<^sub>j * vis\<^sub>k\<^sub>i * hid\<^sub>k\<^sub>j\<close>.
\<close>

theorem Weights_energy_double_loop:
  assumes "int_params self ''matrix'' = Some (Mat W)"
    and "W \<noteq> []" and "\<forall>r \<in> set W. length r = num_hidden"
    and "\<forall>r \<in> set vis. length r = length W"
    and "\<forall>r \<in> set hid. length r = num_hidden"
    and "length hid = length vis"
  shows "Weights_energy self (Mat vis) (Mat hid)
           = Vec (map (\<lambda>k. energy_double_loop W (vis ! k) (hid ! k)) [0..<length vis])
         \<and> Weights_energy self (Mat vis) (Mat hid)
           = Vec (map (\<lambda>k. - (\<Sum>i\<leftarrow>[0..<length W]. \<Sum>j\<leftarrow>[0..<num_hidden].
                                 W ! i ! j * vis ! k ! i * hid ! k ! j)) [0..<length vis])"
proof -
  have nc: "ncols W = num_hidden" using assms(2,3) by (cases W) simp_all
  have row: "- sum_list (map2 (*) (map (\<lambda>j. \<Sum>c\<leftarrow>[0..<length W]. vis ! k ! c * W ! c ! j)
                 [0..<num_hidden]) (hid ! k))
             = - (\<Sum>i\<leftarrow>[0..<length W]. \<Sum>j\<leftarrow>[0..<num_hidden].
                                 W ! i ! j * vis ! k ! i * hid ! k ! j)"
    if "k < length vis" for k
  proof -
    have "length (hid ! k) = num_hidden" using that assms(5,6) by simp
    then show ?thesis
      by (simp add: sum_list_map2_upt bilinear_swap)
  qed
  have loop: "energy_double_loop W (vis ! k) (hid ! k)
            = - (\<Sum>i\<leftarrow>[0..<length W]. \<Sum>j\<leftarrow>[0..<num_hidden].
                                 W ! i ! j * vis ! k ! i * hid ! k ! j)"
    if "k < length vis" for k
    using that assms(4,5,6) by (simp add: energy_double_loop_sum)
  have "Weights_energy self (Mat vis) (Mat hid)
          = Vec (map (\<lambda>k. - sum_list (map2 (*)
                 (map (\<lambda>j. \<Sum>c\<leftarrow>[0..<length W]. vis ! k ! c * W ! c ! j) [0..<num_hidden])
                 (hid ! k))) [0..<length vis])"
    unfolding Weights_energy_def assms(1) option.sel be_batch_dot_def be_dot.simps nc t_mul_def
      t_zip.simps be_tsum_axis1.simps t_neg_def t_map.simps tensor.inject
    using assms(6) by (intro nth_equalityI) simp_all
  also have "\<dots> = Vec (map (\<lambda>k. - (\<Sum>i\<leftarrow>[0..<length W]. \<Sum>j\<leftarrow>[0..<num_hidden].
                                 W ! i ! j * vis ! k ! i * hid ! k ! j)) [0..<length vis])"
    using row by simp
  finally have e: "Weights_energy self (Mat vis) (Mat hid) =
      Vec (map (\<lambda>k. - (\<Sum>i\<leftarrow>[0..<length W]. \<Sum>j\<leftarrow>[0..<num_hidden].
                                 W ! i ! j * vis ! k ! i * hid ! k ! j)) [0..<length vis])" .
  moreover have "Vec (map (\<lambda>k. energy_double_loop W (vis ! k) (hid ! k)) [0..<length vis])
     = Vec (map (\<lambda>k. - (\<Sum>i\<leftarrow>[0..<length W]. \<Sum>j\<leftarrow>[0..<num_hidden].
                                 W ! i ! j * vis ! k ! i * hid ! k ! j)) [0..<length vis])"
    using loop by simp
  ultimately show ?thesis by simp
qed

theorem Weights_energy_double_loop_witness:
  "(let self = \<lparr>int_params = [''matrix'' \<mapsto> Mat [[1, 2], [3, 4]]], penalties = [],
                 constraints = [], shape = (2, 2)\<rparr>;
        vis = [[1, 0], [1, 1]]; hid = [[0, 1], [1, - 1]]
    in Weights_energy self (Mat vis) (Mat hid) = Vec [- 2, 2]
       \<and> energy_double_loop [[1, 2], [3, 4]] [1, 1] [1, - 1] = 2)"
proof -
  let ?self = "\<lparr>int_params = [''matrix'' \<mapsto> Mat [[1, 2], [3, 4]]], penalties = [],
                 constraints = [], shape = (2 :: nat, 2 :: nat)\<rparr>"
  let ?W = "[[1, 2], [3, 4 :: real]]"
  let ?vis = "[[1, 0], [1, 1 :: real]]"
  let ?hid = "[[0, 1], [1, - 1 :: real]]"
  have h1: "int_params ?self ''matrix'' = Some (Mat ?W)" by simp
  have h2: "?W \<noteq> []" by simp
  have h3: "\<forall>r \<in> set ?W. length r = 2" by simp
  have h4: "\<forall>r \<in> set ?vis. length r = length ?W" by simp
  have h5: "\<forall>r \<in> set ?hid. length r = 2" by simp
  have h6: "length ?hid = length ?vis" by simp
  have u: "[0..<2] = [0, 1]" by (simp add: upt_rec)
  note t = Weights_energy_double_loop [OF h1 h2 h3 h4 h5 h6]
  have a: "Weights_energy ?self (Mat ?vis) (Mat ?hid) = Vec [- 2, 2]"
    using t [THEN conjunct2] by (simp add: u)
  have "Vec (map (\<lambda>k. energy_double_loop ?W (?vis ! k) (?hid ! k)) [0..<length ?vis])
                = Vec [- 2, 2]"
    using t [THEN conjunct1] unfolding a by (rule sym)
  then have "energy_double_loop ?W [1, 1] [1, - 1] = 2" by (simp add: u)
  with a show ?thesis by (simp add: Let_def)
qed

end
